theory Spec2Isabelle
  imports Main
begin

section \<open>Exceptions, observable events and the effect type\<close>

text \<open>
  The two scripts \<^verbatim>\<open>zerodha_api_login.py\<close> (the OAuth flow, suffix \<open>_api\<close> below) and
  \<^verbatim>\<open>kite_dashboard_login.py\<close> (the dashboard flow, suffix \<open>_kite\<close>) are Python programs that
  drive a browser. Every Python exception that the scripts catch, let pass or raise is a
  value of \<open>exn\<close>. \<open>KeyboardInterrupt\<close> is the external cancellation signal: it is the
  only exception here that is not a subclass of Python's \<open>Exception\<close>, so an
  \<^verbatim>\<open>except Exception\<close> clause lets it pass and a bare \<^verbatim>\<open>except:\<close> catches it.
\<close>

datatype exn =
    KeyboardInterrupt
  | WebDriverException
  | NoSuchElementException
  | TimeoutException
  | KeyError
  | ValueError
  | TypeError
  | RuntimeError
  | FileNotFoundError
  | OSError
  | InvalidToken

definition is_Exception :: "exn \<Rightarrow> bool" where
  "is_Exception e = (e \<noteq> KeyboardInterrupt)"

definition is_WebDriverException :: "exn \<Rightarrow> bool" where
  "is_WebDriverException e =
     (e = WebDriverException \<or> e = NoSuchElementException \<or> e = TimeoutException)"

datatype level = INFO | WARNING | ERROR

datatype script =
    FocusSetValue nat string  \<comment> \<open>\<^verbatim>\<open>arguments[0].focus(); arguments[0].value = arguments[1];\<close>\<close>
  | Focus nat                 \<comment> \<open>\<^verbatim>\<open>arguments[0].focus();\<close>\<close>
  | ScrollIntoView nat        \<comment> \<open>\<^verbatim>\<open>arguments[0].scrollIntoView(true);\<close>\<close>
  | Void0                     \<comment> \<open>\<^verbatim>\<open>void(0);\<close>\<close>
  | ScrollBy int              \<comment> \<open>\<^verbatim>\<open>window.scrollBy(0,n);\<close>\<close>

text \<open>
  What a run does to the outside world, in order. An interaction with the browser is
  recorded when it has completed without raising; \<open>Screenshot p ts ok\<close> records the
  call \<^verbatim>\<open>driver.save_screenshot("logs/p_ts.png")\<close> and whether the browser wrote the file.
\<close>

datatype event =
    Log level string
  | Print string
  | Get string
  | Click nat
  | Clear nat
  | SendKeys nat string
  | ExecuteScript script
  | Screenshot string nat bool
  | Exchange string "string option"
  | Email string string
  | WriteFile string string
  | Quit

text \<open>
  The mutable world: the clock in milliseconds (\<^verbatim>\<open>time.time()\<close>, which only
  \<^verbatim>\<open>time.sleep\<close> advances in this model), the pending cancellation signal (the instant at
  which the operator presses Ctrl-C, if ever), and the files of the token directory.
\<close>

record world =
  now :: nat
  interrupt_at :: "nat option"
  files :: "(string \<times> string) list"

type_synonym 'a action = "world \<Rightarrow> (exn + 'a) \<times> event list \<times> world"

definition ret :: "'a \<Rightarrow> 'a action" where
  "ret x = (\<lambda>w. (Inr x, [], w))"

definition raise :: "exn \<Rightarrow> 'a action" where
  "raise e = (\<lambda>w. (Inl e, [], w))"

definition emit :: "event \<Rightarrow> unit action" where
  "emit ev = (\<lambda>w. (Inr (), [ev], w))"

definition lift :: "exn + 'a \<Rightarrow> 'a action" where
  "lift r = (\<lambda>w. (r, [], w))"

definition bind :: "'a action \<Rightarrow> ('a \<Rightarrow> 'b action) \<Rightarrow> 'b action" where
  "bind m f = (\<lambda>w. case m w of
       (Inl e, ev, w1) \<Rightarrow> (Inl e, ev, w1)
     | (Inr a, ev, w1) \<Rightarrow> (case f a w1 of (r, ev2, w2) \<Rightarrow> (r, ev @ ev2, w2)))"

definition next_do :: "'a action \<Rightarrow> 'b action \<Rightarrow> 'b action" where
  "next_do m k = bind m (\<lambda>_. k)"

text \<open>\<^verbatim>\<open>try: m except: h\<close> with a bare \<^verbatim>\<open>except\<close>: every exception reaches the handler.\<close>

definition try_except :: "'a action \<Rightarrow> (exn \<Rightarrow> 'a action) \<Rightarrow> 'a action" where
  "try_except m h = (\<lambda>w. case m w of
       (Inl e, ev, w1) \<Rightarrow> (case h e w1 of (r, ev2, w2) \<Rightarrow> (r, ev @ ev2, w2))
     | (Inr a, ev, w1) \<Rightarrow> (Inr a, ev, w1))"

text \<open>\<^verbatim>\<open>try: m except Exception: h\<close>: \<open>KeyboardInterrupt\<close> passes through.\<close>

definition try_except_Exception :: "'a action \<Rightarrow> (exn \<Rightarrow> 'a action) \<Rightarrow> 'a action" where
  "try_except_Exception m h = try_except m (\<lambda>e. if is_Exception e then h e else raise e)"

text \<open>\<^verbatim>\<open>try: m except Exception: pass\<close> and \<^verbatim>\<open>try: m except: pass\<close>.\<close>

definition pass_Exception :: "unit action \<Rightarrow> unit action" where
  "pass_Exception m = try_except_Exception m (\<lambda>e. ret ())"

definition pass_all :: "unit action \<Rightarrow> unit action" where
  "pass_all m = try_except m (\<lambda>e. ret ())"

text \<open>\<^verbatim>\<open>try: m finally: c\<close>: the clean-up runs on both exits and the exit of \<open>m\<close> stands
  (the clean-up used by the scripts never raises an \<open>Exception\<close> of its own).\<close>

definition try_finally :: "'a action \<Rightarrow> unit action \<Rightarrow> 'a action" where
  "try_finally m c = (\<lambda>w. case m w of (r, ev, w1) \<Rightarrow>
       (case c w1 of
          (Inl e, ev2, w2) \<Rightarrow> (Inl e, ev @ ev2, w2)
        | (Inr u, ev2, w2) \<Rightarrow> (r, ev @ ev2, w2)))"

text \<open>
  \<^verbatim>\<open>time.sleep(d)\<close>, \<open>d\<close> in milliseconds. Model time passes only here, so this is where a
  pending cancellation signal is delivered: it raises \<open>KeyboardInterrupt\<close> at the
  instant of the signal and the signal is consumed.
\<close>

definition sleep :: "nat \<Rightarrow> unit action" where
  "sleep d = (\<lambda>w. case interrupt_at w of
       None \<Rightarrow> (Inr (), [], w\<lparr>now := now w + d\<rparr>)
     | Some t \<Rightarrow>
         if t < now w + d
         then (Inl KeyboardInterrupt, [], w\<lparr>now := max (now w) t, interrupt_at := None\<rparr>)
         else (Inr (), [], w\<lparr>now := now w + d\<rparr>))"

definition get_time :: "nat action" where
  "get_time = (\<lambda>w. (Inr (now w), [], w))"

section \<open>Python strings\<close>

fun starts_with :: "string \<Rightarrow> string \<Rightarrow> bool" where
  "starts_with s [] = True"
| "starts_with [] (c # p) = False"
| "starts_with (x # s) (c # p) = (x = c \<and> starts_with s p)"

text \<open>\<^verbatim>\<open>p in s\<close> on strings, and XPath's \<^verbatim>\<open>contains(s, p)\<close>.\<close>

fun str_contains :: "string \<Rightarrow> string \<Rightarrow> bool" where
  "str_contains [] p = (p = [])"
| "str_contains (x # s) p = (starts_with (x # s) p \<or> str_contains s p)"

text \<open>A character is a code point below 256. XML white space, which is what XPath's
  \<^verbatim>\<open>normalize-space()\<close> works on, is the space, the tab, the line feed and the carriage
  return.\<close>

definition is_ws :: "char \<Rightarrow> bool" where
  "is_ws c = (c = CHR '' '' \<or> c = CHR 0x09 \<or> c = CHR 0x0A \<or> c = CHR 0x0D)"

text \<open>Python's \<^verbatim>\<open>str.isspace\<close> on one character: besides those four, the vertical tab, the
  form feed, the four information separators, the next-line control and the no-break
  space.\<close>

definition is_space :: "char \<Rightarrow> bool" where
  "is_space c =
     (c = CHR '' '' \<or> c = CHR 0x09 \<or> c = CHR 0x0A \<or> c = CHR 0x0B \<or> c = CHR 0x0C
      \<or> c = CHR 0x0D \<or> c = CHR 0x1C \<or> c = CHR 0x1D \<or> c = CHR 0x1E \<or> c = CHR 0x1F
      \<or> c = CHR 0x85 \<or> c = CHR 0xA0)"

text \<open>\<^verbatim>\<open>s.strip()\<close>.\<close>

definition strip :: "string \<Rightarrow> string" where
  "strip s = rev (dropWhile is_space (rev (dropWhile is_space s)))"

primrec split_ws :: "string \<Rightarrow> string \<Rightarrow> string list" where
  "split_ws [] cur = (if cur = [] then [] else [cur])"
| "split_ws (c # cs) cur =
     (if is_ws c then (if cur = [] then split_ws cs [] else cur # split_ws cs [])
      else split_ws cs (cur @ [c]))"

fun join_sp :: "string list \<Rightarrow> string" where
  "join_sp [] = []"
| "join_sp [x] = x"
| "join_sp (x # y # ys) = x @ '' '' @ join_sp (y # ys)"

text \<open>XPath's \<^verbatim>\<open>normalize-space()\<close>.\<close>

definition normalize_space :: "string \<Rightarrow> string" where
  "normalize_space s = join_sp (split_ws s [])"

text \<open>Python truthiness of an optional string (\<open>None\<close> and \<open>""\<close> are falsy) and \<^verbatim>\<open>a or b\<close>.\<close>

definition truthy :: "string option \<Rightarrow> bool" where
  "truthy v = (case v of None \<Rightarrow> False | Some s \<Rightarrow> s \<noteq> [])"

definition py_or :: "string option \<Rightarrow> string option \<Rightarrow> string option" where
  "py_or a b = (if truthy a then a else b)"

text \<open>\<^verbatim>\<open>str(v)\<close> as an f-string formats a value that may be \<open>None\<close>.\<close>

definition pystr :: "string option \<Rightarrow> string" where
  "pystr v = (case v of None \<Rightarrow> ''None'' | Some s \<Rightarrow> s)"

section \<open>The controllable browser\<close>

text \<open>
  The browser is an external capability (Selenium). It is taken as a parameter: what the
  page holds and how each interaction ends, at every instant of the run. An element is
  addressed by its handle; an interaction with a handle that the page no longer holds
  raises (a stale element).
\<close>

record element =
  handle :: nat
  tag :: string
  elem_id :: string
  etype :: string
  inputmode :: string
  maxlength :: string
  classes :: string
  label :: string
  displayed :: "bool option"
  enabled :: "bool option"
  click_ok :: bool
  clear_ok :: bool
  keys_ok :: bool

record browser =
  page :: "nat \<Rightarrow> element list"
  url :: "nat \<Rightarrow> string option"
  find_ok :: "nat \<Rightarrow> bool"
  script_ok :: "nat \<Rightarrow> bool"
  shot_ok :: "nat \<Rightarrow> bool"
  get_ok :: "nat \<Rightarrow> bool"
  quit_ok :: "nat \<Rightarrow> bool"

definition lookup :: "browser \<Rightarrow> nat \<Rightarrow> nat \<Rightarrow> element option" where
  "lookup b t h = find (\<lambda>e. handle e = h) (page b t)"

text \<open>\<^verbatim>\<open>driver.find_elements(by, value)\<close>: the handles of the matches, in document order.\<close>

definition find_elements :: "browser \<Rightarrow> (element \<Rightarrow> bool) \<Rightarrow> nat \<Rightarrow> exn + nat list" where
  "find_elements b sel t =
     (if find_ok b t then Inr (map handle (filter sel (page b t))) else Inl WebDriverException)"

text \<open>\<^verbatim>\<open>driver.find_element(by, value)\<close>: the first match, or \<open>NoSuchElementException\<close>.\<close>

definition find_element :: "browser \<Rightarrow> (element \<Rightarrow> bool) \<Rightarrow> nat \<Rightarrow> exn + nat" where
  "find_element b sel t =
     (case find_elements b sel t of
        Inl e \<Rightarrow> Inl e
      | Inr [] \<Rightarrow> Inl NoSuchElementException
      | Inr (h # hs) \<Rightarrow> Inr h)"

definition is_displayed :: "browser \<Rightarrow> nat \<Rightarrow> nat \<Rightarrow> exn + bool" where
  "is_displayed b t h =
     (case lookup b t h of
        None \<Rightarrow> Inl WebDriverException
      | Some e \<Rightarrow> (case displayed e of None \<Rightarrow> Inl WebDriverException | Some v \<Rightarrow> Inr v))"

definition is_enabled :: "browser \<Rightarrow> nat \<Rightarrow> nat \<Rightarrow> exn + bool" where
  "is_enabled b t h =
     (case lookup b t h of
        None \<Rightarrow> Inl WebDriverException
      | Some e \<Rightarrow> (case enabled e of None \<Rightarrow> Inl WebDriverException | Some v \<Rightarrow> Inr v))"

text \<open>\<^verbatim>\<open>e.is_displayed() and e.is_enabled()\<close>: the second call is made only after a true first.\<close>

definition displayed_and_enabled :: "browser \<Rightarrow> nat \<Rightarrow> nat \<Rightarrow> exn + bool" where
  "displayed_and_enabled b t h =
     (case is_displayed b t h of
        Inl e \<Rightarrow> Inl e
      | Inr False \<Rightarrow> Inr False
      | Inr True \<Rightarrow> is_enabled b t h)"

text \<open>A list comprehension \<^verbatim>\<open>[e for e in els if p(e)]\<close> whose test may raise.\<close>

fun filter_exn :: "('a \<Rightarrow> exn + bool) \<Rightarrow> 'a list \<Rightarrow> exn + 'a list" where
  "filter_exn p [] = Inr []"
| "filter_exn p (x # xs) =
     (case p x of
        Inl e \<Rightarrow> Inl e
      | Inr keep \<Rightarrow>
          (case filter_exn p xs of
             Inl e \<Rightarrow> Inl e
           | Inr ys \<Rightarrow> Inr (if keep then x # ys else ys)))"

definition click :: "browser \<Rightarrow> nat \<Rightarrow> unit action" where
  "click b h = (\<lambda>w. case lookup b (now w) h of
       None \<Rightarrow> (Inl WebDriverException, [], w)
     | Some e \<Rightarrow> if click_ok e then (Inr (), [Click h], w) else (Inl WebDriverException, [], w))"

definition clear :: "browser \<Rightarrow> nat \<Rightarrow> unit action" where
  "clear b h = (\<lambda>w. case lookup b (now w) h of
       None \<Rightarrow> (Inl WebDriverException, [], w)
     | Some e \<Rightarrow> if clear_ok e then (Inr (), [Clear h], w) else (Inl WebDriverException, [], w))"

definition send_keys :: "browser \<Rightarrow> nat \<Rightarrow> string \<Rightarrow> unit action" where
  "send_keys b h s = (\<lambda>w. case lookup b (now w) h of
       None \<Rightarrow> (Inl WebDriverException, [], w)
     | Some e \<Rightarrow> if keys_ok e then (Inr (), [SendKeys h s], w) else (Inl WebDriverException, [], w))"

definition execute_script :: "browser \<Rightarrow> script \<Rightarrow> unit action" where
  "execute_script b s = (\<lambda>w.
     if script_ok b (now w) then (Inr (), [ExecuteScript s], w)
     else (Inl WebDriverException, [], w))"

definition get :: "browser \<Rightarrow> string \<Rightarrow> unit action" where
  "get b u = (\<lambda>w.
     if get_ok b (now w) then (Inr (), [Get u], w) else (Inl WebDriverException, [], w))"

definition quit :: "browser \<Rightarrow> unit action" where
  "quit b = (\<lambda>w.
     if quit_ok b (now w) then (Inr (), [Quit], w) else (Inl WebDriverException, [], w))"

definition current_url :: "browser \<Rightarrow> string action" where
  "current_url b = (\<lambda>w. case url b (now w) of
       None \<Rightarrow> (Inl WebDriverException, [], w)
     | Some u \<Rightarrow> (Inr u, [], w))"

section \<open>Redirect token poller\<close>

text \<open>
  \<^verbatim>\<open>urlparse\<close> and \<^verbatim>\<open>parse_qs\<close> are library code: \<open>qs\<close> stands for
  \<^verbatim>\<open>parse_qs(urlparse(u).query).get(k, [None])[0]\<close>, the first value of key \<open>k\<close> in the query
  of \<open>u\<close>, and is a parameter.

  \<^verbatim>\<open>wait_for_request_token\<close> is the same function in both scripts but for its default
  timeout (25 s and 30 s) and the spelling of its \<^verbatim>\<open>except\<close> clause around the URL read,
  which makes no difference here since the read raises no \<open>KeyboardInterrupt\<close>.
\<close>

type_synonym artifact = "string option \<times> string option \<times> string"

function poll_request_token ::
  "(string \<Rightarrow> string \<Rightarrow> string option) \<Rightarrow> browser \<Rightarrow> nat \<Rightarrow> artifact action" where
  "poll_request_token qs b end_t w =
     (if now w < end_t then
        (let cur = (case url b (now w) of None \<Rightarrow> [] | Some u \<Rightarrow> u) in
         if str_contains cur ''request_token=''
         then (Inr (qs cur ''request_token'', qs cur ''status'', cur), [], w)
         else (case sleep 500 w of
                 (Inl e, ev, w1) \<Rightarrow> (Inl e, ev, w1)
               | (Inr u, ev, w1) \<Rightarrow> poll_request_token qs b end_t w1))
      else (case url b (now w) of
              None \<Rightarrow> (Inl WebDriverException, [], w)
            | Some u \<Rightarrow> (Inr (None, None, u), [], w)))"
  by pat_completeness auto
termination
  by (relation "measure (\<lambda>(qs, b, end_t, w). end_t - now w)")
     (auto simp: sleep_def split: option.splits if_splits)

declare poll_request_token.simps [simp del]

definition wait_for_request_token_api ::
  "(string \<Rightarrow> string \<Rightarrow> string option) \<Rightarrow> browser \<Rightarrow> nat \<Rightarrow> artifact action" where
  "wait_for_request_token_api qs b timeout = (\<lambda>w. poll_request_token qs b (now w + timeout) w)"

definition wait_for_request_token_kite ::
  "(string \<Rightarrow> string \<Rightarrow> string option) \<Rightarrow> browser \<Rightarrow> nat \<Rightarrow> artifact action" where
  "wait_for_request_token_kite qs b timeout = (\<lambda>w. poll_request_token qs b (now w + timeout) w)"

section \<open>Waiting on the page\<close>

text \<open>
  Selenium's \<^verbatim>\<open>WebDriverWait(driver, timeout).until(condition)\<close> is library code. It
  evaluates the condition and returns its value if that is truthy; otherwise it raises
  \<open>TimeoutException\<close> if the clock is past the deadline, and else sleeps half a second
  and tries again. So the condition is evaluated once more after the last sleep, which
  may end past the deadline. A \<open>NoSuchElementException\<close> of the condition counts as a
  falsy value; any other exception of the condition leaves the wait.
\<close>

function wait_until :: "(nat \<Rightarrow> exn + 'a option) \<Rightarrow> nat \<Rightarrow> 'a action" where
  "wait_until cond end_t w =
     (case (case cond (now w) of
              Inr (Some v) \<Rightarrow> Some (Inr v)
            | Inr None \<Rightarrow> None
            | Inl e \<Rightarrow> if e = NoSuchElementException then None else Some (Inl e)) of
        Some r \<Rightarrow> (r, [], w)
      | None \<Rightarrow>
          if end_t < now w then (Inl TimeoutException, [], w)
          else
            (case sleep 500 w of
               (Inl e, ev, w1) \<Rightarrow> (Inl e, ev, w1)
             | (Inr u, ev, w1) \<Rightarrow> wait_until cond end_t w1))"
  by pat_completeness auto
termination
  by (relation "measure (\<lambda>(cond, end_t, w). end_t + 1 - now w)")
     (auto simp: sleep_def split: option.splits if_splits)

declare wait_until.simps [simp del]

definition WebDriverWait_until :: "nat \<Rightarrow> (nat \<Rightarrow> exn + 'a option) \<Rightarrow> 'a action" where
  "WebDriverWait_until timeout cond = (\<lambda>w. wait_until cond (now w + timeout) w)"

text \<open>\<^verbatim>\<open>EC.presence_of_element_located(locator)\<close>.\<close>

definition presence_of_element_located ::
  "browser \<Rightarrow> (element \<Rightarrow> bool) \<Rightarrow> nat \<Rightarrow> exn + nat option" where
  "presence_of_element_located b sel t =
     (case find_element b sel t of Inl e \<Rightarrow> Inl e | Inr h \<Rightarrow> Inr (Some h))"

text \<open>\<^verbatim>\<open>EC.element_to_be_clickable(locator)\<close>: the first match, once it is displayed and
  enabled.\<close>

definition element_to_be_clickable ::
  "browser \<Rightarrow> (element \<Rightarrow> bool) \<Rightarrow> nat \<Rightarrow> exn + nat option" where
  "element_to_be_clickable b sel t =
     (case find_element b sel t of
        Inl e \<Rightarrow> Inl e
      | Inr h \<Rightarrow>
          (case displayed_and_enabled b t h of
             Inl e \<Rightarrow> Inl e
           | Inr ok \<Rightarrow> Inr (if ok then Some h else None)))"

text \<open>A browser query made at the current instant, as an action.\<close>

definition at_now :: "(nat \<Rightarrow> exn + 'a) \<Rightarrow> 'a action" where
  "at_now q = (\<lambda>w. (q (now w), [], w))"

section \<open>Locators (the XPath and id selectors of the scripts)\<close>

definition by_id :: "string \<Rightarrow> element \<Rightarrow> bool" where
  "by_id i e = (elem_id e = i)"

definition by_tag :: "string \<Rightarrow> element \<Rightarrow> bool" where
  "by_tag n e = (tag e = n)"

text \<open>\<^verbatim>\<open>//input[@maxlength='1' and (@inputmode='numeric' or contains(@class,'otp') or
  contains(@class,'digit'))]\<close> (both scripts, the alternatives in another order).\<close>

definition xp_split_boxes :: "element \<Rightarrow> bool" where
  "xp_split_boxes e =
     (tag e = ''input'' \<and> maxlength e = ''1'' \<and>
      (inputmode e = ''numeric'' \<or> str_contains (classes e) ''otp''
       \<or> str_contains (classes e) ''digit''))"

text \<open>\<^verbatim>\<open>//input[@inputmode='numeric' or @type='tel' or @type='number' or @type='password']\<close>.\<close>

definition xp_fallback_api :: "element \<Rightarrow> bool" where
  "xp_fallback_api e =
     (tag e = ''input'' \<and>
      (inputmode e = ''numeric'' \<or> etype e = ''tel'' \<or> etype e = ''number''
       \<or> etype e = ''password''))"

text \<open>\<^verbatim>\<open>//input[@inputmode='numeric' or @type='tel' or @type='number']\<close>.\<close>

definition xp_numeric_kite :: "element \<Rightarrow> bool" where
  "xp_numeric_kite e =
     (tag e = ''input'' \<and>
      (inputmode e = ''numeric'' \<or> etype e = ''tel'' \<or> etype e = ''number''))"

text \<open>\<^verbatim>\<open>//input[@type='password']\<close>.\<close>

definition xp_password :: "element \<Rightarrow> bool" where
  "xp_password e = (tag e = ''input'' \<and> etype e = ''password'')"

text \<open>\<^verbatim>\<open>//button[@type='submit']\<close>.\<close>

definition xp_submit :: "element \<Rightarrow> bool" where
  "xp_submit e = (tag e = ''button'' \<and> etype e = ''submit'')"

text \<open>\<^verbatim>\<open>//button[normalize-space()='Continue' or normalize-space()='CONTINUE' or
  normalize-space()='Continue ']\<close> (the OAuth script).\<close>

definition xp_continue_api :: "element \<Rightarrow> bool" where
  "xp_continue_api e =
     (tag e = ''button'' \<and>
      (normalize_space (label e) = ''Continue'' \<or> normalize_space (label e) = ''CONTINUE''
       \<or> normalize_space (label e) = ''Continue ''))"

text \<open>\<^verbatim>\<open>//button[contains(text(),'Continue') or contains(text(),'CONTINUE')]\<close> (the dashboard
  script).\<close>

definition xp_continue_kite :: "element \<Rightarrow> bool" where
  "xp_continue_kite e =
     (tag e = ''button'' \<and>
      (str_contains (label e) ''Continue'' \<or> str_contains (label e) ''CONTINUE''))"

text \<open>\<^verbatim>\<open>//*[contains(@class,'profile') or contains(@class,'user-id') or
  contains(text(),'Positions') or contains(text(),'Holdings')]\<close>.\<close>

definition xp_dashboard :: "element \<Rightarrow> bool" where
  "xp_dashboard e =
     (str_contains (classes e) ''profile'' \<or> str_contains (classes e) ''user-id''
      \<or> str_contains (label e) ''Positions'' \<or> str_contains (label e) ''Holdings'')"

section \<open>OTP field locator\<close>

text \<open>The value of a \<^verbatim>\<open>try\<close> block whose \<^verbatim>\<open>except\<close> clause is \<^verbatim>\<open>pass\<close>: a block that raised
  found nothing. (The blocks below only query the browser; no time passes in them, so no
  cancellation signal arrives inside.)\<close>

definition except_pass :: "exn + 'a option \<Rightarrow> 'a option" where
  "except_pass r = (case r of Inl e \<Rightarrow> None | Inr v \<Rightarrow> v)"

subsection \<open>\<^verbatim>\<open>zerodha_api_login.find_otp_fields\<close>\<close>

text \<open>Lines 131-148: the first element with the id, if it is displayed and enabled.\<close>

definition probe_id_api :: "browser \<Rightarrow> string \<Rightarrow> nat \<Rightarrow> exn + nat list option" where
  "probe_id_api b i t =
     (case find_elements b (by_id i) t of
        Inl e \<Rightarrow> Inl e
      | Inr [] \<Rightarrow> Inr None
      | Inr (el # els) \<Rightarrow>
          (case displayed_and_enabled b t el of
             Inl e \<Rightarrow> Inl e
           | Inr ok \<Rightarrow> Inr (if ok then Some [el] else None)))"

text \<open>Lines 151-157: at least two displayed, enabled single-character boxes.\<close>

definition probe_split_api :: "browser \<Rightarrow> nat \<Rightarrow> exn + nat list option" where
  "probe_split_api b t =
     (case find_elements b xp_split_boxes t of
        Inl e \<Rightarrow> Inl e
      | Inr cand \<Rightarrow>
          (case filter_exn (displayed_and_enabled b t) cand of
             Inl e \<Rightarrow> Inl e
           | Inr cand2 \<Rightarrow> Inr (if 2 \<le> length cand2 then Some cand2 else None)))"

text \<open>Lines 160-166: any displayed, enabled numeric or password input.\<close>

definition probe_fallback_api :: "browser \<Rightarrow> nat \<Rightarrow> exn + nat list option" where
  "probe_fallback_api b t =
     (case find_elements b xp_fallback_api t of
        Inl e \<Rightarrow> Inl e
      | Inr cand \<Rightarrow>
          (case filter_exn (displayed_and_enabled b t) cand of
             Inl e \<Rightarrow> Inl e
           | Inr cand2 \<Rightarrow> Inr (if cand2 \<noteq> [] then Some cand2 else None)))"

definition probe_otp_api :: "browser \<Rightarrow> nat \<Rightarrow> nat list option" where
  "probe_otp_api b t =
     (case except_pass (probe_id_api b ''totp'' t) of
        Some r \<Rightarrow> Some r
      | None \<Rightarrow>
     (case except_pass (probe_id_api b ''pin'' t) of
        Some r \<Rightarrow> Some r
      | None \<Rightarrow>
     (case except_pass (probe_split_api b t) of
        Some r \<Rightarrow> Some r
      | None \<Rightarrow> except_pass (probe_fallback_api b t))))"

function poll_otp_fields_api :: "browser \<Rightarrow> nat \<Rightarrow> nat list action" where
  "poll_otp_fields_api b end_t w =
     (if now w < end_t then
        (case probe_otp_api b (now w) of
           Some r \<Rightarrow> (Inr r, [], w)
         | None \<Rightarrow>
             (case sleep 400 w of
                (Inl e, ev, w1) \<Rightarrow> (Inl e, ev, w1)
              | (Inr u, ev, w1) \<Rightarrow> poll_otp_fields_api b end_t w1))
      else (Inr [], [], w))"
  by pat_completeness auto
termination
  by (relation "measure (\<lambda>(b, end_t, w). end_t - now w)")
     (auto simp: sleep_def split: option.splits if_splits)

declare poll_otp_fields_api.simps [simp del]

definition find_otp_fields_api :: "browser \<Rightarrow> nat \<Rightarrow> nat list action" where
  "find_otp_fields_api b timeout = (\<lambda>w. poll_otp_fields_api b (now w + timeout) w)"

subsection \<open>\<^verbatim>\<open>kite_dashboard_login.find_otp_fields\<close>\<close>

text \<open>Lines 120-147, one pass of the \<^verbatim>\<open>try\<close> block: the two id queries return whatever they
  matched, the split-box and numeric queries filter on displayed and enabled, the password
  query filters on displayed only.\<close>

definition probe_otp_kite :: "browser \<Rightarrow> nat \<Rightarrow> exn + nat list option" where
  "probe_otp_kite b t =
     (case find_elements b (by_id ''totp'') t of Inl e \<Rightarrow> Inl e | Inr el \<Rightarrow>
      if el \<noteq> [] then Inr (Some el) else
     (case find_elements b (by_id ''pin'') t of Inl e \<Rightarrow> Inl e | Inr el2 \<Rightarrow>
      if el2 \<noteq> [] then Inr (Some el2) else
     (case find_elements b xp_split_boxes t of Inl e \<Rightarrow> Inl e | Inr els \<Rightarrow>
     (case filter_exn (displayed_and_enabled b t) els of Inl e \<Rightarrow> Inl e | Inr els2 \<Rightarrow>
      if 2 \<le> length els2 then Inr (Some els2) else
     (case find_elements b xp_numeric_kite t of Inl e \<Rightarrow> Inl e | Inr els3 \<Rightarrow>
     (case filter_exn (displayed_and_enabled b t) els3 of Inl e \<Rightarrow> Inl e | Inr els4 \<Rightarrow>
      if 2 \<le> length els4 then Inr (Some els4) else
      if length els4 = 1 then Inr (Some els4) else
     (case find_elements b xp_password t of Inl e \<Rightarrow> Inl e | Inr els5 \<Rightarrow>
     (case filter_exn (is_displayed b t) els5 of Inl e \<Rightarrow> Inl e | Inr els6 \<Rightarrow>
      if 1 \<le> length els6 then Inr (Some els6) else Inr None))))))))"

function poll_otp_fields_kite :: "browser \<Rightarrow> nat \<Rightarrow> nat list action" where
  "poll_otp_fields_kite b end_t w =
     (if now w < end_t then
        (case except_pass (probe_otp_kite b (now w)) of
           Some r \<Rightarrow> (Inr r, [], w)
         | None \<Rightarrow>
             (case sleep 300 w of
                (Inl e, ev, w1) \<Rightarrow> (Inl e, ev, w1)
              | (Inr u, ev, w1) \<Rightarrow> poll_otp_fields_kite b end_t w1))
      else (Inr [], [], w))"
  by pat_completeness auto
termination
  by (relation "measure (\<lambda>(b, end_t, w). end_t - now w)")
     (auto simp: sleep_def split: option.splits if_splits)

declare poll_otp_fields_kite.simps [simp del]

definition find_otp_fields_kite :: "browser \<Rightarrow> nat \<Rightarrow> nat list action" where
  "find_otp_fields_kite b timeout = (\<lambda>w. poll_otp_fields_kite b (now w + timeout) w)"

section \<open>OTP injector\<close>

subsection \<open>\<^verbatim>\<open>zerodha_api_login.enter_otp\<close>\<close>

text \<open>Lines 201-216, the body of the loop for one field and one character: focus, clear
  and click are best effort; the keystroke is not guarded.\<close>

definition type_char_api :: "browser \<Rightarrow> nat \<Rightarrow> char \<Rightarrow> unit action" where
  "type_char_api b fld ch =
     next_do (pass_Exception (execute_script b (Focus fld)))
    (next_do (pass_Exception (clear b fld))
    (next_do (pass_Exception (click b fld))
    (next_do (send_keys b fld [ch])
    (sleep 60))))"

text \<open>Lines 198-200, the loop over \<^verbatim>\<open>enumerate(otp)\<close>: \<open>i\<close> is the index, the string is what
  is left of the OTP; the loop breaks at the first index beyond the fields.\<close>

fun split_loop_api :: "browser \<Rightarrow> nat list \<Rightarrow> nat \<Rightarrow> string \<Rightarrow> unit action" where
  "split_loop_api b flds i [] = ret ()"
| "split_loop_api b flds i (ch # rest) =
     (if length flds \<le> i then ret ()
      else next_do (type_char_api b (flds ! i) ch) (split_loop_api b flds (Suc i) rest))"

definition enter_otp_api :: "browser \<Rightarrow> string \<Rightarrow> nat list \<Rightarrow> bool action" where
  "enter_otp_api b otp flds =
     try_except_Exception
       (if flds = [] then ret False
        else if length flds = 1 then
          next_do (pass_Exception (execute_script b (FocusSetValue (flds ! 0) otp)))
         (next_do (pass_Exception (next_do (clear b (flds ! 0)) (click b (flds ! 0))))
         (next_do (send_keys b (flds ! 0) otp)
         (ret True)))
        else next_do (split_loop_api b flds 0 otp) (ret True))
       (\<lambda>e. next_do (emit (Log ERROR ''Error entering OTP'')) (ret False))"

subsection \<open>\<^verbatim>\<open>kite_dashboard_login.enter_otp_into_fields\<close>\<close>

text \<open>Lines 169-175, the body of the loop: only the click is guarded; the scroll script,
  the clear and the keystroke are not.\<close>

definition type_char_kite :: "browser \<Rightarrow> nat \<Rightarrow> char \<Rightarrow> unit action" where
  "type_char_kite b fld ch =
     next_do (execute_script b (ScrollIntoView fld))
    (next_do (pass_all (click b fld))
    (next_do (clear b fld)
    (next_do (send_keys b fld [ch])
    (sleep 50))))"

text \<open>Lines 167-168.\<close>

fun split_loop_kite :: "browser \<Rightarrow> nat list \<Rightarrow> nat \<Rightarrow> string \<Rightarrow> unit action" where
  "split_loop_kite b flds i [] = ret ()"
| "split_loop_kite b flds i (ch # rest) =
     (if length flds \<le> i then ret ()
      else next_do (type_char_kite b (flds ! i) ch) (split_loop_kite b flds (Suc i) rest))"

definition enter_otp_into_fields :: "browser \<Rightarrow> string \<Rightarrow> nat list \<Rightarrow> bool action" where
  "enter_otp_into_fields b otp flds =
     try_except_Exception
       (if length flds = 1 then
          next_do (pass_all (click b (flds ! 0)))
         (next_do (clear b (flds ! 0))
         (next_do (send_keys b (flds ! 0) otp)
         (ret True)))
        else next_do (split_loop_kite b flds 0 otp) (ret True))
       (\<lambda>e. next_do (emit (Log ERROR ''OTP typing error'')) (ret False))"

section \<open>Continuation trigger\<close>

subsection \<open>\<^verbatim>\<open>kite_dashboard_login.click_continue_button\<close>\<close>

text \<open>Lines 188-194 and 197-203: wait until the first match of the selector is clickable,
  click it and return \<open>True\<close>; under a bare \<^verbatim>\<open>except: pass\<close>. The value says whether the
  function has returned \<open>True\<close>.\<close>

definition click_when_clickable :: "browser \<Rightarrow> nat \<Rightarrow> (element \<Rightarrow> bool) \<Rightarrow> bool action" where
  "click_when_clickable b timeout sel =
     try_except
       (bind (WebDriverWait_until timeout (element_to_be_clickable b sel))
          (\<lambda>btn. next_do (click b btn) (ret True)))
       (\<lambda>e. ret False)"

text \<open>Lines 206-209: the first button that is displayed and enabled is clicked; nothing here
  is guarded.\<close>

fun click_first_button :: "browser \<Rightarrow> nat list \<Rightarrow> bool action" where
  "click_first_button b [] = ret False"
| "click_first_button b (h # hs) =
     bind (at_now (\<lambda>t. displayed_and_enabled b t h))
       (\<lambda>ok. if ok then next_do (click b h) (ret True) else click_first_button b hs)"

definition click_continue_button :: "browser \<Rightarrow> nat \<Rightarrow> bool action" where
  "click_continue_button b timeout =
     try_except
       (bind (click_when_clickable b timeout xp_continue_kite) (\<lambda>done1.
        if done1 then ret True else
        bind (click_when_clickable b timeout xp_submit) (\<lambda>done2.
        if done2 then ret True else
        bind (at_now (find_elements b (by_tag ''button''))) (click_first_button b))))
       (\<lambda>e. ret False)"

subsection \<open>\<^verbatim>\<open>zerodha_api_login.perform_oauth_login\<close>, lines 300-323\<close>

text \<open>Lines 305-312: the first listed button that is displayed and enabled and whose click
  does not raise; a button whose test or click raises an \<open>Exception\<close> is passed over.\<close>

fun click_continue_loop :: "browser \<Rightarrow> nat list \<Rightarrow> bool action" where
  "click_continue_loop b [] = ret False"
| "click_continue_loop b (h # hs) =
     bind (try_except_Exception
             (bind (at_now (\<lambda>t. displayed_and_enabled b t h))
                (\<lambda>ok. if ok then next_do (click b h) (ret True) else ret False))
             (\<lambda>e. ret False))
       (\<lambda>clicked. if clicked then ret True else click_continue_loop b hs)"

definition click_continue_api :: "browser \<Rightarrow> bool action" where
  "click_continue_api b =
     bind (try_except_Exception
             (bind (at_now (find_elements b xp_continue_api)) (click_continue_loop b))
             (\<lambda>e. ret False))
       (\<lambda>clicked.
          if clicked then ret True
          else try_except_Exception
                 (bind (at_now (find_element b xp_submit))
                    (\<lambda>btn. next_do (click b btn) (ret True)))
                 (\<lambda>e. ret False))"

section \<open>Configuration and external services\<close>

text \<open>
  Everything the scripts take from their surroundings, as parameters: the environment
  variables, the outcome of starting a browser (\<^verbatim>\<open>build_driver()\<close>, by the instant of the
  call), the TOTP generator (\<^verbatim>\<open>pyotp.TOTP(secret).now()\<close>), the token exchange
  (\<^verbatim>\<open>KiteConnect.generate_session\<close>, whose value here is the \<^verbatim>\<open>access_token\<close> entry of the
  response), the query-string parser, the mail settings of \<^verbatim>\<open>notify.py\<close>, and the
  \<^verbatim>\<open>cryptography\<close> library and file system used by \<^verbatim>\<open>token_manager.py\<close>.
\<close>

record cipher =
  encrypt :: "string \<Rightarrow> string"
  decrypt :: "string \<Rightarrow> exn + string"

text \<open>The account file as \<^verbatim>\<open>csv\<close> reads it: the header row and the data rows, each a list
  of cells.\<close>

record csv =
  header :: "string list"
  records :: "string list list"

record env =
  api_key :: "string option"
  api_secret :: "string option"
  accounts_file :: "csv option"
  keep_browser_minutes :: int
  login_url :: string
  build_driver :: "nat \<Rightarrow> exn + browser"
  totp_now :: "string \<Rightarrow> nat \<Rightarrow> exn + string"
  generate_session :: "string \<Rightarrow> nat \<Rightarrow> exn + string option"
  qs :: "string \<Rightarrow> string \<Rightarrow> string option"
  notify_email :: "string option"
  smtp_host :: "string option"
  smtp_port_ok :: bool
  smtp_user :: "string option"
  smtp_pass :: "string option"
  smtp_up :: bool
  fernet_key :: "string option"
  fernet_new :: "string \<Rightarrow> exn + cipher"
  writable :: "string \<Rightarrow> bool"
  chmod_ok :: "string \<Rightarrow> bool"

subsection \<open>\<^verbatim>\<open>notify.send_email\<close>\<close>

text \<open>No recipient or incomplete SMTP settings: nothing is sent. \<^verbatim>\<open>int(os.getenv("SMTP_PORT",
  587))\<close> is evaluated before the settings are checked and raises \<open>ValueError\<close> on a
  malformed port. A delivery failure is printed, not raised.\<close>

definition send_email :: "env \<Rightarrow> string \<Rightarrow> string \<Rightarrow> unit action" where
  "send_email env subject body =
     (if \<not> truthy (notify_email env) then ret ()
      else if \<not> smtp_port_ok env then raise ValueError
      else if \<not> (truthy (smtp_host env) \<and> truthy (smtp_user env) \<and> truthy (smtp_pass env))
      then ret ()
      else if smtp_up env then emit (Email subject body)
      else emit (Print ''Failed to send email''))"

subsection \<open>\<^verbatim>\<open>token_manager.py\<close>\<close>

definition get_fernet :: "env \<Rightarrow> exn + cipher" where
  "get_fernet env =
     (case fernet_key env of
        None \<Rightarrow> Inl RuntimeError
      | Some k \<Rightarrow> if k = [] then Inl RuntimeError else fernet_new env k)"

definition token_path :: "string \<Rightarrow> string" where
  "token_path client_id = ''tokens/'' @ client_id @ ''_access_token.enc''"

definition write_bytes :: "env \<Rightarrow> string \<Rightarrow> string \<Rightarrow> unit action" where
  "write_bytes env path content = (\<lambda>w.
     if writable env path
     then (Inr (), [WriteFile path content], w\<lparr>files := (path, content) # files w\<rparr>)
     else (Inl OSError, [], w))"

definition chmod :: "env \<Rightarrow> string \<Rightarrow> unit action" where
  "chmod env path = lift (if chmod_ok env path then Inr () else Inl OSError)"

definition save_encrypted_token :: "env \<Rightarrow> string \<Rightarrow> string \<Rightarrow> unit action" where
  "save_encrypted_token env client_id token =
     bind (lift (get_fernet env)) (\<lambda>f.
     next_do (write_bytes env (token_path client_id) (encrypt f token))
             (pass_Exception (chmod env (token_path client_id))))"


definition delete_encrypted_token :: "string \<Rightarrow> unit action" where
  "delete_encrypted_token client_id = (\<lambda>w.
     (Inr (), [], w\<lparr>files := filter (\<lambda>(p, c). p \<noteq> token_path client_id) (files w)\<rparr>))"

section \<open>Screenshots\<close>

text \<open>\<^verbatim>\<open>screenshot(driver, name_prefix)\<close>: the file name carries the prefix and the clock in
  seconds. A failure to save is logged as a warning by the OAuth script and ignored by the
  dashboard script; neither raises.\<close>

definition screenshot_api :: "browser \<Rightarrow> string \<Rightarrow> unit action" where
  "screenshot_api b name_prefix = (\<lambda>w.
     (Inr (),
      [Screenshot name_prefix (now w div 1000) (shot_ok b (now w)),
       if shot_ok b (now w) then Log INFO ''Screenshot saved''
       else Log WARNING ''Failed to save screenshot''],
      w))"

definition screenshot_kite :: "browser \<Rightarrow> string \<Rightarrow> unit action" where
  "screenshot_kite b name_prefix = (\<lambda>w.
     (Inr (),
      Screenshot name_prefix (now w div 1000) (shot_ok b (now w)) #
      (if shot_ok b (now w) then [Log INFO ''Screenshot saved''] else []),
      w))"

section \<open>Keep-alive heartbeat\<close>

text \<open>\<^verbatim>\<open>zerodha_api_login.py\<close>, lines 376-383: a no-op script whose failure is passed over,
  then thirty seconds of sleep, while the clock is before the expiry.\<close>

function heartbeat_api :: "browser \<Rightarrow> nat \<Rightarrow> unit action" where
  "heartbeat_api b expiry w =
     (if now w < expiry then
        (case next_do (pass_Exception (execute_script b Void0)) (sleep 30000) w of
           (Inl e, ev, w1) \<Rightarrow> (Inl e, ev, w1)
         | (Inr u, ev, w1) \<Rightarrow>
             (case heartbeat_api b expiry w1 of (r, ev2, w2) \<Rightarrow> (r, ev @ ev2, w2)))
      else (Inr (), [], w))"
  by pat_completeness auto
termination
  by (relation "measure (\<lambda>(b, expiry, w). expiry - now w)")
     (auto simp: next_do_def bind_def pass_Exception_def try_except_Exception_def
        try_except_def execute_script_def ret_def raise_def sleep_def
        split: option.splits if_splits sum.splits prod.splits)

declare heartbeat_api.simps [simp del]

text \<open>Lines 372-385: no loop unless \<^verbatim>\<open>KEEP_BROWSER_MINUTES > 0\<close>; a cancellation signal
  during the loop is caught and logged.\<close>

definition keep_browser_open :: "env \<Rightarrow> browser \<Rightarrow> unit action" where
  "keep_browser_open env b =
     (if 0 < keep_browser_minutes env then
        bind get_time (\<lambda>t.
        next_do (emit (Log INFO ''Keeping browser open''))
          (try_except (heartbeat_api b (t + nat (keep_browser_minutes env) * 60000))
             (\<lambda>e. if e = KeyboardInterrupt
                  then emit (Log INFO ''Interrupted while keeping browser open'')
                  else raise e)))
      else ret ())"

text \<open>\<^verbatim>\<open>kite_dashboard_login.py\<close>, lines 273-281: two scroll scripts under a bare
  \<^verbatim>\<open>except: pass\<close>, then thirty seconds of sleep, for twenty-four hours.\<close>

function heartbeat_kite :: "browser \<Rightarrow> nat \<Rightarrow> unit action" where
  "heartbeat_kite b end_time w =
     (if now w < end_time then
        (case next_do (pass_all (next_do (execute_script b (ScrollBy 1))
                                         (execute_script b (ScrollBy (- 1)))))
                      (sleep 30000) w of
           (Inl e, ev, w1) \<Rightarrow> (Inl e, ev, w1)
         | (Inr u, ev, w1) \<Rightarrow>
             (case heartbeat_kite b end_time w1 of (r, ev2, w2) \<Rightarrow> (r, ev @ ev2, w2)))
      else (Inr (), [], w))"
  by pat_completeness auto
termination
  by (relation "measure (\<lambda>(b, end_time, w). end_time - now w)")
     (auto simp: next_do_def bind_def pass_all_def try_except_def execute_script_def
        ret_def sleep_def
        split: option.splits if_splits sum.splits prod.splits)

declare heartbeat_kite.simps [simp del]

definition keep_dashboard_open :: "browser \<Rightarrow> unit action" where
  "keep_dashboard_open b =
     next_do (emit (Log INFO ''Keeping dashboard open for 24 hours...''))
       (bind get_time (\<lambda>t. heartbeat_kite b (t + 24 * 60 * 60 * 1000)))"

section \<open>Login orchestrator of the OAuth script (\<^verbatim>\<open>perform_oauth_login\<close>)\<close>

text \<open>An account is the triple \<open>(user_id, password, totp_secret)\<close>. The function is split
  at the points where the source has an early \<^verbatim>\<open>return\<close>; the line numbers are those of
  \<^verbatim>\<open>zerodha_api_login.py\<close>.\<close>

text \<open>Lines 258-273.\<close>

definition submit_credentials_api :: "env \<Rightarrow> browser \<Rightarrow> string \<Rightarrow> string \<Rightarrow> unit action" where
  "submit_credentials_api env b user_id password =
     next_do (get b (login_url env))
    (bind (WebDriverWait_until 25000 (presence_of_element_located b (by_id ''userid'')))
       (\<lambda>uid_field.
     next_do (clear b uid_field)
    (next_do (send_keys b uid_field user_id)
    (bind (at_now (find_element b (by_id ''password''))) (\<lambda>pwd_field.
     next_do (clear b pwd_field)
    (next_do (send_keys b pwd_field password)
    (bind (at_now (find_element b xp_submit)) (\<lambda>submit.
     next_do (click b submit)
    (next_do (emit (Log INFO ''Submitted credentials''))
    (sleep 1000))))))))))"

text \<open>Lines 362-386: store the token; on success the optional heartbeat, then \<open>True\<close>.\<close>

definition store_token_api :: "env \<Rightarrow> browser \<Rightarrow> string \<Rightarrow> string \<Rightarrow> bool action" where
  "store_token_api env b user_id access_token =
     bind (try_except_Exception
             (next_do (save_encrypted_token env user_id access_token)
             (next_do (emit (Log INFO (''Access token saved (encrypted) for '' @ user_id)))
             (next_do (send_email env (''Kite token updated for '' @ user_id)
                         (''Access token refreshed and saved for '' @ user_id))
             (ret True))))
             (\<lambda>e. next_do (emit (Log ERROR (''Failed to save token for '' @ user_id)))
                    (ret False)))
       (\<lambda>saved. if saved then next_do (keep_browser_open env b) (ret True) else ret False)"

definition generate_session_call :: "env \<Rightarrow> string \<Rightarrow> string option action" where
  "generate_session_call env rt = (\<lambda>w.
     case generate_session env rt (now w) of
       Inl e \<Rightarrow> (Inl e, [], w)
     | Inr d \<Rightarrow> (Inr d, [Exchange rt d], w))"

text \<open>Lines 345-360: the exchange; a failed call or a response without a token fails the
  attempt.\<close>

definition exchange_token_api :: "env \<Rightarrow> browser \<Rightarrow> string \<Rightarrow> string \<Rightarrow> bool action" where
  "exchange_token_api env b user_id rt =
     bind (try_except_Exception
             (bind (generate_session_call env rt) (\<lambda>d. ret (Some d)))
             (\<lambda>ex. next_do (emit (Log ERROR ''generate_session failed''))
                   (next_do (screenshot_api b (''generate_session_'' @ user_id))
                   (next_do (send_email env (''Kite generate_session failed for '' @ user_id)
                               ''Error'')
                   (ret None)))))
       (\<lambda>data. case data of
          None \<Rightarrow> ret False
        | Some access_token \<Rightarrow>
            if \<not> truthy access_token then
              next_do (emit (Log ERROR
                         (''generate_session returned no access_token for '' @ user_id)))
             (next_do (screenshot_api b (''no_access_token_'' @ user_id))
             (next_do (send_email env (''Kite token missing for '' @ user_id)
                         ''generate_session returned'')
             (ret False)))
            else store_token_api env b user_id (the access_token))"

text \<open>Lines 326-343: no request token, so look for the dashboard for six seconds; otherwise
  go on to the exchange.\<close>

definition after_redirect_api :: "env \<Rightarrow> browser \<Rightarrow> string \<Rightarrow> artifact \<Rightarrow> bool action" where
  "after_redirect_api env b user_id art =
     (case art of (rt, status, final_url) \<Rightarrow>
      if \<not> truthy rt then
        try_except_Exception
          (next_do (WebDriverWait_until 6000 (presence_of_element_located b xp_dashboard))
          (next_do (emit (Log INFO (''Login appears successful for '' @ user_id
                       @ '' (dashboard loaded). No request_token in URL.'')))
          (next_do (screenshot_api b (''logged_in_no_request_'' @ user_id))
          (ret True))))
          (\<lambda>e. next_do (emit (Log ERROR
                           (''No request_token found and dashboard not detected. Final URL: ''
                            @ final_url)))
                (next_do (screenshot_api b (''no_request_token_'' @ user_id))
                (next_do (send_email env (''Kite login failed for '' @ user_id)
                            (''No request_token captured. Final URL: '' @ final_url))
                (ret False))))
      else
        next_do (emit (Log INFO (''Captured request_token for '' @ user_id)))
                (exchange_token_api env b user_id (the rt)))"

text \<open>Lines 277-326: the early return on an empty field list, the OTP, the injector, the
  continuation trigger and the redirect poller.\<close>

definition after_locate_api ::
  "env \<Rightarrow> browser \<Rightarrow> string \<times> string \<times> string \<Rightarrow> nat list \<Rightarrow> bool action" where
  "after_locate_api env b acct flds =
     (case acct of (user_id, password, totp_secret) \<Rightarrow>
      if flds = [] then
        next_do (emit (Log ERROR (''No OTP fields found for '' @ user_id)))
       (next_do (screenshot_api b (''no_otp_'' @ user_id))
       (next_do (send_email env (''Kite OTP not found for '' @ user_id)
                   (''Unable to find OTP input after credentials submission for '' @ user_id))
       (ret False)))
      else
        bind (try_except_Exception
                (bind (at_now (totp_now env totp_secret)) (\<lambda>otp.
                 next_do (emit (Log INFO (''Generated OTP: '' @ otp))) (ret (Some otp))))
                (\<lambda>e. next_do (emit (Log ERROR (''Failed to generate OTP for '' @ user_id)))
                       (ret None)))
          (\<lambda>otp_opt. case otp_opt of
             None \<Rightarrow> ret False
           | Some otp \<Rightarrow>
               bind (enter_otp_api b otp flds) (\<lambda>ok.
               if \<not> ok then
                 next_do (emit (Log ERROR (''OTP entry failed for '' @ user_id)))
                (next_do (screenshot_api b (''otp_entry_fail_'' @ user_id))
                (next_do (send_email env (''Kite OTP entry failed for '' @ user_id)
                            (''OTP entry failed for '' @ user_id))
                (ret False)))
               else
                 next_do (click_continue_api b)
                (next_do (emit (Log INFO ''TOTP submitted. Waiting for redirect...''))
                (bind (wait_for_request_token_api (qs env) b 30000)
                   (after_redirect_api env b user_id))))))"

text \<open>Lines 388-403: both \<^verbatim>\<open>except\<close> clauses log, take a screenshot and return \<open>False\<close>; they
  differ in the message and the file name.\<close>

definition on_exception_api :: "browser \<Rightarrow> string \<Rightarrow> exn \<Rightarrow> bool action" where
  "on_exception_api b user_id e =
     (if is_WebDriverException e then
        next_do (emit (Log ERROR (''WebDriver exception for '' @ user_id)))
       (next_do (screenshot_api b (''webdriver_exc_'' @ user_id)) (ret False))
      else
        next_do (emit (Log ERROR (''Unhandled error for '' @ user_id)))
       (next_do (screenshot_api b (''exception_'' @ user_id)) (ret False)))"

text \<open>Lines 245-410. When \<^verbatim>\<open>build_driver()\<close> raises, \<open>driver\<close> is still \<open>None\<close>: the handlers
  log and return \<open>False\<close> with no screenshot, and there is nothing to quit.\<close>

definition perform_oauth_login :: "env \<Rightarrow> string \<times> string \<times> string \<Rightarrow> bool action" where
  "perform_oauth_login env acct =
     (case acct of (user_id, password, totp_secret) \<Rightarrow>
      next_do (emit (Log INFO (''=== Login start: '' @ user_id @ '' ==='')))
     (next_do (emit (Log INFO (''Login URL: '' @ login_url env)))
     (bind get_time (\<lambda>t.
        case build_driver env t of
          Inl e \<Rightarrow>
            if is_Exception e then
              next_do (emit (Log ERROR
                 ((if is_WebDriverException e then ''WebDriver exception for ''
                   else ''Unhandled error for '') @ user_id)))
                (ret False)
            else raise e
        | Inr b \<Rightarrow>
            try_finally
              (try_except_Exception
                 (next_do (submit_credentials_api env b user_id password)
                    (bind (find_otp_fields_api b 18000) (after_locate_api env b acct)))
                 (on_exception_api b user_id))
              (pass_Exception (quit b))))))"

section \<open>Login orchestrator of the dashboard script (\<^verbatim>\<open>perform_login_for_account\<close>)\<close>

text \<open>The dashboard script's loader hands on whatever \<^verbatim>\<open>csv.DictReader\<close> gave it, which is
  \<open>None\<close> for a cell that a short row lacks, so its account is a triple of optional
  strings. Typing \<open>None\<close> into a field and a \<open>None\<close> TOTP seed raise \<open>TypeError\<close>.\<close>

definition send_keys_opt :: "browser \<Rightarrow> nat \<Rightarrow> string option \<Rightarrow> unit action" where
  "send_keys_opt b h v = (case v of None \<Rightarrow> raise TypeError | Some s \<Rightarrow> send_keys b h s)"

definition totp_now_opt :: "env \<Rightarrow> string option \<Rightarrow> nat \<Rightarrow> exn + string" where
  "totp_now_opt env secret t =
     (case secret of None \<Rightarrow> Inl TypeError | Some s \<Rightarrow> totp_now env s t)"

text \<open>Lines 224-241 of \<^verbatim>\<open>kite_dashboard_login.py\<close>.\<close>

definition submit_credentials_kite ::
  "browser \<Rightarrow> string option \<Rightarrow> string option \<Rightarrow> unit action" where
  "submit_credentials_kite b user_id password =
     next_do (get b ''https://kite.zerodha.com/'')
    (bind (WebDriverWait_until 20000 (presence_of_element_located b (by_id ''userid'')))
       (\<lambda>uid.
     next_do (clear b uid)
    (next_do (send_keys_opt b uid user_id)
    (bind (at_now (find_element b (by_id ''password''))) (\<lambda>pwd.
     next_do (clear b pwd)
    (next_do (send_keys_opt b pwd password)
    (bind (at_now (find_element b xp_submit)) (\<lambda>submit.
     next_do (click b submit)
    (next_do (emit (Log INFO ''Submitted credentials''))
    (sleep 1000))))))))))"

text \<open>Lines 244-284: what the poller returns is not looked at; the attempt logs success,
  keeps the dashboard open for a day and returns \<open>True\<close>.\<close>

definition after_locate_kite ::
  "env \<Rightarrow> browser \<Rightarrow> string option \<times> string option \<times> string option \<Rightarrow> nat list
   \<Rightarrow> bool action" where
  "after_locate_kite env b acct flds =
     (case acct of (user_id, password, totp_secret) \<Rightarrow>
      if flds = [] then
        next_do (emit (Log ERROR ''OTP field not found''))
       (next_do (screenshot_kite b (''no_otp_'' @ pystr user_id))
       (ret False))
      else
        bind (at_now (totp_now_opt env totp_secret)) (\<lambda>otp.
        next_do (emit (Log INFO (''Generated OTP: '' @ otp)))
       (bind (enter_otp_into_fields b otp flds) (\<lambda>ok.
        if \<not> ok then
          next_do (emit (Log ERROR ''OTP typing failed''))
         (next_do (screenshot_kite b (''otp_fail_'' @ pystr user_id))
         (ret False))
        else
          next_do (click_continue_button b 10000)
         (next_do (wait_for_request_token_kite (qs env) b 30000)
         (next_do (emit (Log INFO ''Login successful - dashboard loaded!''))
         (next_do (keep_dashboard_open b)
         (next_do (emit (Log INFO ''24 hours finished - browser stays open.''))
         (ret True)))))))))"

text \<open>Lines 219-289: the browser is started before the \<^verbatim>\<open>try\<close>; the single handler is
  \<^verbatim>\<open>except Exception\<close>; the browser is never quit.\<close>

definition perform_login_for_account ::
  "env \<Rightarrow> string option \<times> string option \<times> string option \<Rightarrow> bool action" where
  "perform_login_for_account env acct =
     (case acct of (user_id, password, totp_secret) \<Rightarrow>
      next_do (emit (Log INFO (''Starting login for '' @ pystr user_id)))
     (bind (at_now (build_driver env)) (\<lambda>b.
        try_except_Exception
          (next_do (submit_credentials_kite b user_id password)
             (bind (find_otp_fields_kite b 15000) (after_locate_kite env b acct)))
          (\<lambda>e. next_do (emit (Log ERROR ''Error''))
                (next_do (screenshot_kite b (''exception_'' @ pystr user_id))
                (ret False))))))"

section \<open>Account loader\<close>

text \<open>\<^verbatim>\<open>csv.DictReader\<close> (library code): rows without cells are skipped; a row becomes a
  dictionary from the header's names to its cells, a name beyond the row's cells mapped
  to \<open>None\<close>, and of two equal names the later wins.\<close>

definition dict_row :: "string list \<Rightarrow> string list \<Rightarrow> (string \<times> string option) list" where
  "dict_row hdr row = rev (zip hdr (map Some row @ replicate (length hdr - length row) None))"

definition DictReader :: "csv \<Rightarrow> (string \<times> string option) list list" where
  "DictReader f = map (dict_row (header f)) (filter (\<lambda>row. row \<noteq> []) (records f))"

text \<open>\<^verbatim>\<open>r.get(k)\<close> and \<^verbatim>\<open>r[k]\<close>.\<close>

definition dict_get :: "(string \<times> string option) list \<Rightarrow> string \<Rightarrow> string option" where
  "dict_get r k = (case map_of r k of None \<Rightarrow> None | Some v \<Rightarrow> v)"

definition dict_index :: "(string \<times> string option) list \<Rightarrow> string \<Rightarrow> exn + string option" where
  "dict_index r k = (case map_of r k of None \<Rightarrow> Inl KeyError | Some v \<Rightarrow> Inr v)"

subsection \<open>\<^verbatim>\<open>zerodha_api_login.read_accounts\<close>\<close>

fun read_rows_api ::
  "(string \<times> string option) list list \<Rightarrow> (string \<times> string \<times> string) list action" where
  "read_rows_api [] = ret []"
| "read_rows_api (r # rest) =
     (let uid = py_or (py_or (dict_get r ''user_id'') (dict_get r ''userid''))
                      (dict_get r ''user'');
          pwd = dict_get r ''password'';
          totp = py_or (py_or (dict_get r ''totp_secret'') (dict_get r ''totp''))
                       (dict_get r ''secret'')
      in if \<not> (truthy uid \<and> truthy pwd \<and> truthy totp) then
           next_do (emit (Log WARNING ''Skipping incomplete row'')) (read_rows_api rest)
         else
           bind (read_rows_api rest) (\<lambda>rows.
           ret ((strip (the uid), strip (the pwd), strip (the totp)) # rows)))"

definition read_accounts_api :: "env \<Rightarrow> (string \<times> string \<times> string) list action" where
  "read_accounts_api env =
     (case accounts_file env of
        None \<Rightarrow> next_do (emit (Log ERROR ''Accounts CSV not found'')) (ret [])
      | Some f \<Rightarrow> read_rows_api (DictReader f))"

subsection \<open>\<^verbatim>\<open>kite_dashboard_login.read_accounts\<close>\<close>

fun read_rows_kite ::
  "(string \<times> string option) list list
   \<Rightarrow> exn + (string option \<times> string option \<times> string option) list" where
  "read_rows_kite [] = Inr []"
| "read_rows_kite (r # rest) =
     (case dict_index r ''user_id'' of Inl e \<Rightarrow> Inl e | Inr uid \<Rightarrow>
     (case dict_index r ''password'' of Inl e \<Rightarrow> Inl e | Inr pwd \<Rightarrow>
     (case dict_index r ''totp_secret'' of Inl e \<Rightarrow> Inl e | Inr totp \<Rightarrow>
     (case read_rows_kite rest of Inl e \<Rightarrow> Inl e | Inr rows \<Rightarrow>
        Inr ((uid, pwd, totp) # rows)))))"

definition read_accounts_kite ::
  "env \<Rightarrow> (string option \<times> string option \<times> string option) list action" where
  "read_accounts_kite env =
     (case accounts_file env of
        None \<Rightarrow> raise FileNotFoundError
      | Some f \<Rightarrow> lift (read_rows_kite (DictReader f)))"

section \<open>Batch runner\<close>

subsection \<open>\<^verbatim>\<open>zerodha_api_login.main\<close>\<close>

text \<open>Lines 421-431: the value of the guarded block says whether the loop goes on
  (\<open>False\<close> is the \<^verbatim>\<open>break\<close> on \<open>KeyboardInterrupt\<close>).\<close>

fun main_loop_api :: "env \<Rightarrow> (string \<times> string \<times> string) list \<Rightarrow> unit action" where
  "main_loop_api env [] = ret ()"
| "main_loop_api env (acct # rest) =
     bind (try_except
             (bind (perform_oauth_login env acct) (\<lambda>ok.
              next_do (emit (Log INFO (''Result for '' @ fst acct @ '': ''
                               @ (if ok then ''True'' else ''False''))))
                      (ret True)))
             (\<lambda>e. if e = KeyboardInterrupt
                  then next_do (emit (Log INFO ''Interrupted by user'')) (ret False)
                  else next_do (emit (Log ERROR
                                  (''Unhandled error in main loop for '' @ fst acct)))
                               (ret True)))
       (\<lambda>go_on. if go_on then next_do (sleep 4000) (main_loop_api env rest) else ret ())"

definition main_api :: "env \<Rightarrow> unit action" where
  "main_api env =
     (if \<not> truthy (api_key env) \<or> \<not> truthy (api_secret env) then
        emit (Log ERROR ''API_KEY or API_SECRET missing in environment (.env)'')
      else
        bind (read_accounts_api env) (\<lambda>accounts.
        next_do (emit (Log INFO ''Loaded accounts''))
                (main_loop_api env accounts)))"

subsection \<open>\<^verbatim>\<open>kite_dashboard_login.main\<close>\<close>

fun main_loop_kite ::
  "env \<Rightarrow> (string option \<times> string option \<times> string option) list \<Rightarrow> unit action" where
  "main_loop_kite env [] = ret ()"
| "main_loop_kite env (acct # rest) =
     next_do (perform_login_for_account env acct)
    (next_do (sleep 4000)
    (main_loop_kite env rest))"

definition main_kite :: "env \<Rightarrow> unit action" where
  "main_kite env =
     (if \<not> truthy (api_key env) \<or> \<not> truthy (api_secret env) then
        emit (Log ERROR ''API credentials missing'')
      else
        bind (read_accounts_kite env) (\<lambda>accounts.
        next_do (emit (Log INFO ''Loaded accounts''))
                (main_loop_kite env accounts)))"

section \<open>Reading a trace\<close>

text \<open>The keystrokes a trace holds, in order: which field was sent which string.\<close>

fun keys_sent :: "event list \<Rightarrow> (nat \<times> string) list" where
  "keys_sent [] = []"
| "keys_sent (SendKeys h s # es) = (h, s) # keys_sent es"
| "keys_sent (e # es) = keys_sent es"

text \<open>The elements a trace clicked, in order.\<close>

fun clicks :: "event list \<Rightarrow> nat list" where
  "clicks [] = []"
| "clicks (Click h # es) = h # clicks es"
| "clicks (e # es) = clicks es"




text \<open>The screenshots a trace asked for, in order: file-name prefix, clock in seconds, and
  whether the browser saved the file.\<close>

fun screenshots :: "event list \<Rightarrow> (string \<times> nat \<times> bool) list" where
  "screenshots [] = []"
| "screenshots (Screenshot p ts ok # es) = (p, ts, ok) # screenshots es"
| "screenshots (e # es) = screenshots es"

text \<open>Whether the element behind a handle takes a click at an instant.\<close>

definition can_click :: "browser \<Rightarrow> nat \<Rightarrow> nat \<Rightarrow> bool" where
  "can_click b t h = (case lookup b t h of None \<Rightarrow> False | Some e \<Rightarrow> click_ok e)"

text \<open>Whether a button passes the test of the OAuth script's loop at an instant: it is
  displayed and enabled, and clicking it does not raise.\<close>

definition clickable_now :: "browser \<Rightarrow> nat \<Rightarrow> nat \<Rightarrow> bool" where
  "clickable_now b t h = (displayed_and_enabled b t h = Inr True \<and> can_click b t h)"

text \<open>A waiting strategy of the dashboard script's trigger started in \<open>w\<close> ends in \<open>w1\<close>
  without a click: the wait raised (it timed out, or the page raised), or the click on
  the element it returned raised.\<close>

definition strategy_fails ::
  "browser \<Rightarrow> nat \<Rightarrow> (element \<Rightarrow> bool) \<Rightarrow> world \<Rightarrow> world \<Rightarrow> bool" where
  "strategy_fails b timeout sel w w1 =
     (case WebDriverWait_until timeout (element_to_be_clickable b sel) w of
        (Inl e, ev, w2) \<Rightarrow> w2 = w1
      | (Inr h, ev, w2) \<Rightarrow> w2 = w1 \<and> \<not> can_click b (now w2) h)"

section \<open>Concrete scenarios\<close>

definition world0 :: world where
  "world0 = \<lparr>now = 0, interrupt_at = None, files = []\<rparr>"

text \<open>A browser whose page is empty and whose every call succeeds.\<close>

definition blank_browser :: browser where
  "blank_browser =
     \<lparr>page = (\<lambda>t. []), url = (\<lambda>t. Some ''https://kite.zerodha.com/''),
      find_ok = (\<lambda>t. True), script_ok = (\<lambda>t. True), shot_ok = (\<lambda>t. True),
      get_ok = (\<lambda>t. True), quit_ok = (\<lambda>t. True)\<rparr>"

text \<open>A browser that was closed or has crashed: reading its URL raises.\<close>

definition crashed_browser :: browser where
  "crashed_browser = blank_browser\<lparr>url := (\<lambda>t. None)\<rparr>"

text \<open>An input element that is displayed, enabled and takes every interaction.\<close>

definition input_box :: "nat \<Rightarrow> element" where
  "input_box h =
     \<lparr>handle = h, tag = ''input'', elem_id = [], etype = ''text'', inputmode = ''numeric'',
      maxlength = ''1'', classes = [], label = [], displayed = Some True,
      enabled = Some True, click_ok = True, clear_ok = True, keys_ok = True\<rparr>"

definition button :: "nat \<Rightarrow> string \<Rightarrow> string \<Rightarrow> element" where
  "button h ty lbl =
     \<lparr>handle = h, tag = ''button'', elem_id = [], etype = ty, inputmode = [],
      maxlength = [], classes = [], label = lbl, displayed = Some True,
      enabled = Some True, click_ok = True, clear_ok = True, keys_ok = True\<rparr>"



text \<open>A page whose only element carries the id \<open>totp\<close> and is not displayed (the field
  exists in the document before the page shows it).\<close>

definition hidden_totp :: browser where
  "hidden_totp =
     blank_browser\<lparr>page := (\<lambda>t. [(input_box 7)\<lparr>elem_id := ''totp'', displayed := Some False\<rparr>])\<rparr>"

text \<open>A page whose only input is a displayed but disabled password field.\<close>

definition disabled_password :: browser where
  "disabled_password =
     blank_browser\<lparr>page := (\<lambda>t. [(input_box 8)\<lparr>etype := ''password'', inputmode := [],
                                     maxlength := [], enabled := Some False\<rparr>])\<rparr>"

text \<open>The login form, and the page that follows it one second later in the spec's
  scenario A: a single OTP field and a Continue button, the address bar already carrying
  the request token.\<close>

definition login_form :: "element list" where
  "login_form =
     [(input_box 1)\<lparr>elem_id := ''userid'', inputmode := [], maxlength := []\<rparr>,
      (input_box 2)\<lparr>elem_id := ''password'', etype := ''password'', inputmode := [],
                     maxlength := []\<rparr>,
      button 3 ''submit'' ''Login'']"

definition otp_form :: "element list" where
  "otp_form =
     [(input_box 4)\<lparr>elem_id := ''totp'', maxlength := []\<rparr>,
      button 5 ''submit'' ''Continue'']"

definition scenario_a :: browser where
  "scenario_a =
     blank_browser
       \<lparr>page := (\<lambda>t. if t < 1000 then login_form else otp_form),
        url := (\<lambda>t. if t < 1000 then Some ''https://kite.zerodha.com/''
                    else Some ''http://localhost:8000/callback?request_token=abc123&status=success'')\<rparr>"

text \<open>Scenario C: after the login form the page stays empty, so no OTP field appears.\<close>

definition scenario_c :: browser where
  "scenario_c = blank_browser\<lparr>page := (\<lambda>t. if t < 1000 then login_form else [])\<rparr>"

text \<open>A stand-in for the cipher (reversal is its own inverse) and for the query parser
  (the values of scenario A's address).\<close>

definition toy_cipher :: cipher where
  "toy_cipher = \<lparr>encrypt = rev, decrypt = (\<lambda>c. Inr (rev c))\<rparr>"

definition toy_qs :: "string \<Rightarrow> string \<Rightarrow> string option" where
  "toy_qs u k =
     (if \<not> str_contains u (k @ ''='') then None
      else if k = ''request_token'' then Some ''abc123''
      else if k = ''status'' then Some ''success'' else None)"

definition env0 :: env where
  "env0 =
     \<lparr>api_key = Some ''key'', api_secret = Some ''secret'', accounts_file = None,
      keep_browser_minutes = 0, login_url = ''https://kite.zerodha.com/connect/login'',
      build_driver = (\<lambda>t. Inr scenario_a), totp_now = (\<lambda>s t. Inr ''123456''),
      generate_session = (\<lambda>rt t. Inr (Some ''tok_xyz'')), qs = toy_qs,
      notify_email = None, smtp_host = None, smtp_port_ok = True, smtp_user = None,
      smtp_pass = None, smtp_up = True, fernet_key = Some ''k'',
      fernet_new = (\<lambda>k. Inr toy_cipher), writable = (\<lambda>p. True), chmod_ok = (\<lambda>p. True)\<rparr>"

text \<open>An account file headed with the alternate spellings, and one whose second row
  lacks its last cell.\<close>

definition alt_header_file :: csv where
  "alt_header_file =
     \<lparr>header = [''userid'', ''password'', ''totp''],
      records = [[''U1'', ''pw1'', ''JBSWY3DPEHPK3PXP'']]\<rparr>"

definition short_row_file :: csv where
  "short_row_file =
     \<lparr>header = [''user_id'', ''password'', ''totp_secret''],
      records = [[''U1'', ''pw1'', ''JBSWY3DPEHPK3PXP''], [''U2'', ''pw2''], [''U3'', ''pw3'', ''GEZDGNBVGY3TQOJQ'']]\<rparr>"

definition env_c :: env where
  "env_c = env0\<lparr>build_driver := (\<lambda>t. Inr scenario_c)\<rparr>"

text \<open>Scenario C with a browser that crashes one second in, right after the credentials
  were submitted: from then on every call to it raises.\<close>

definition crash_after_submit :: browser where
  "crash_after_submit =
     scenario_c
       \<lparr>url := (\<lambda>t. if t < 1000 then Some ''https://kite.zerodha.com/'' else None),
        find_ok := (\<lambda>t. t < 1000), script_ok := (\<lambda>t. t < 1000),
        shot_ok := (\<lambda>t. t < 1000), quit_ok := (\<lambda>t. t < 1000)\<rparr>"

definition env_crash :: env where
  "env_crash = env0\<lparr>build_driver := (\<lambda>t. Inr crash_after_submit)\<rparr>"

text \<open>A page with two plain buttons, "Cancel" before "continue" in lower case; and a page
  whose only button is a plain "Next".\<close>

definition cancel_continue :: browser where
  "cancel_continue =
     blank_browser\<lparr>page := (\<lambda>t. [button 1 ''button'' ''Cancel'', button 2 ''button'' ''continue''])\<rparr>"

definition next_only :: browser where
  "next_only = blank_browser\<lparr>page := (\<lambda>t. [button 1 ''button'' ''Next''])\<rparr>"

text \<open>Pages that tell the strategies apart: a plain "Cancel" before a plain "Continue"; a
  plain "Cancel" before a submit button "Next"; a submit button "Login" before a plain
  "Continue"; and a hidden "Continue" before a visible one and a submit button "Go".\<close>

definition cancel_then_continue :: browser where
  "cancel_then_continue =
     blank_browser\<lparr>page := (\<lambda>t. [button 1 ''button'' ''Cancel'', button 2 ''button'' ''Continue''])\<rparr>"

definition cancel_then_submit :: browser where
  "cancel_then_submit =
     blank_browser\<lparr>page := (\<lambda>t. [button 1 ''button'' ''Cancel'', button 2 ''submit'' ''Next''])\<rparr>"

definition login_then_continue :: browser where
  "login_then_continue =
     blank_browser\<lparr>page := (\<lambda>t. [button 1 ''submit'' ''Login'', button 2 ''button'' ''Continue''])\<rparr>"

definition hidden_continue :: browser where
  "hidden_continue =
     blank_browser\<lparr>page := (\<lambda>t. [(button 1 ''button'' ''Continue'')\<lparr>displayed := Some False\<rparr>,
                                  button 2 ''button'' ''Continue'', button 3 ''submit'' ''Go''])\<rparr>"

text \<open>The OTP page of scenario A on its own.\<close>

definition otp_page :: browser where
  "otp_page = blank_browser\<lparr>page := (\<lambda>t. otp_form)\<rparr>"

section \<open>Invariants of actions\<close>

text \<open>\<open>holds I X E m\<close>: started in a world that satisfies \<open>I\<close>, the action \<open>m\<close> ends in a
  world that satisfies \<open>I\<close>, every event it leaves satisfies \<open>E\<close>, and an exception it
  raises satisfies \<open>X\<close>.\<close>

definition holds ::
  "(world \<Rightarrow> bool) \<Rightarrow> (exn \<Rightarrow> bool) \<Rightarrow> (event \<Rightarrow> bool) \<Rightarrow> 'a action \<Rightarrow> bool" where
  "holds I X E m =
     (\<forall>w. I w \<longrightarrow>
        I (snd (snd (m w))) \<and> list_all E (fst (snd (m w)))
        \<and> (case fst (m w) of Inl e \<Rightarrow> X e | Inr v \<Rightarrow> True))"



text \<open>The account of scenario A as each script holds it, a run in which the operator
  presses Ctrl-C five seconds in, and a machine on which no browser can be started, with
  two accounts to process.\<close>

definition api_acct :: "string \<times> string \<times> string" where
  "api_acct = (''U1'', ''pw1'', ''JBSWY3DPEHPK3PXP'')"

definition kite_acct :: "string option \<times> string option \<times> string option" where
  "kite_acct = (Some ''U1'', Some ''pw1'', Some ''JBSWY3DPEHPK3PXP'')"

definition interrupted :: world where
  "interrupted = world0\<lparr>interrupt_at := Some 5000\<rparr>"

definition two_accounts :: csv where
  "two_accounts =
     \<lparr>header = [''user_id'', ''password'', ''totp_secret''],
      records = [[''U1'', ''pw1'', ''JBSWY3DPEHPK3PXP''], [''U2'', ''pw2'', ''KRSXG5CTMVRXEZLU'']]\<rparr>"

definition env_nodriver :: env where
  "env_nodriver =
     env0\<lparr>build_driver := (\<lambda>t. Inl WebDriverException), accounts_file := Some two_accounts\<rparr>"

section \<open>Facts about the effect type and the browser calls\<close>

lemmas run_defs = ret_def raise_def emit_def lift_def bind_def next_do_def try_except_def
  try_except_Exception_def pass_Exception_def pass_all_def try_finally_def get_time_def
  at_now_def


lemma bind_Inr:
  "bind m f w = (Inr y, evs, w') \<Longrightarrow>
   \<exists>a ev1 w1 ev2. m w = (Inr a, ev1, w1) \<and> f a w1 = (Inr y, ev2, w') \<and> evs = ev1 @ ev2"
  by (auto simp: bind_def split: prod.splits sum.splits)

lemma next_do_Inr:
  "next_do m k w = (Inr y, evs, w') \<Longrightarrow>
   \<exists>a ev1 w1 ev2. m w = (Inr a, ev1, w1) \<and> k w1 = (Inr y, ev2, w') \<and> evs = ev1 @ ev2"
  unfolding next_do_def by (rule bind_Inr)

lemma zip_as_map:
  "zip xs ys = map (\<lambda>i. (xs ! i, ys ! i)) [0..<min (length xs) (length ys)]"
  by (rule nth_equalityI) auto






lemma keys_sent_click_events [simp]:
  "keys_sent (case x of None \<Rightarrow> [] | Some e \<Rightarrow> if click_ok e then [Click h] else []) = []"
  "keys_sent (case x of None \<Rightarrow> [] | Some e \<Rightarrow> if clear_ok e then [Clear h] else []) = []"
  "keys_sent (case x of None \<Rightarrow> []
               | Some e \<Rightarrow> if clear_ok e then Clear h # (if click_ok e then [Click h] else [])
                           else []) = []"
  "keys_sent (if c then [ExecuteScript s] else []) = []"
  by (simp_all split: option.splits)

lemma next_do_run:
  "next_do m k w =
     (case m w of
        (Inl e, ev, w1) \<Rightarrow> (Inl e, ev, w1)
      | (Inr a, ev, w1) \<Rightarrow> (case k w1 of (r, ev2, w2) \<Rightarrow> (r, ev @ ev2, w2)))"
  by (simp add: next_do_def bind_def)




lemma sleep_None: "interrupt_at w = None \<Longrightarrow> sleep d w = (Inr (), [], w\<lparr>now := now w + d\<rparr>)"
  by (simp add: sleep_def)

section \<open>The OTP injector\<close>


















section \<open>The redirect token poller\<close>

text \<open>While the address never carries the marker and no cancellation signal is pending,
  the poller runs to its deadline and then reads the address once more, outside any
  \<^verbatim>\<open>try\<close>: it returns an empty token and status with that address, and raises exactly
  when that last read raises.\<close>

lemma poll_no_marker:
  "(\<forall>t. \<not> str_contains (case url b t of None \<Rightarrow> [] | Some u \<Rightarrow> u) ''request_token='') \<Longrightarrow>
   interrupt_at w = None \<Longrightarrow>
     \<exists>w1. poll_request_token q b end_t w =
            ((case url b (now w1) of None \<Rightarrow> Inl WebDriverException
              | Some u \<Rightarrow> Inr (None, None, u)), [], w1)
          \<and> end_t \<le> now w1 \<and> interrupt_at w1 = None \<and> files w1 = files w"
proof (induction q b end_t w rule: poll_request_token.induct)
  case (1 q b end_t w)
  show ?case
  proof (cases "now w < end_t")
    case False
    then show ?thesis
      using "1.prems"
      by (subst poll_request_token.simps) (auto split: option.splits)
  next
    case True
    let ?w1 = "w\<lparr>now := now w + 500\<rparr>"
    have sl: "sleep 500 w = (Inr (), [], ?w1)" using "1.prems" by (simp add: sleep_def)
    have nm: "\<not> str_contains (case url b (now w) of None \<Rightarrow> [] | Some u \<Rightarrow> u) ''request_token=''"
      using "1.prems"(1) by blast
    have "\<exists>w2. poll_request_token q b end_t ?w1 =
            ((case url b (now w2) of None \<Rightarrow> Inl WebDriverException
              | Some u \<Rightarrow> Inr (None, None, u)), [], w2)
          \<and> end_t \<le> now w2 \<and> interrupt_at w2 = None \<and> files w2 = files ?w1"
      using "1.IH"[OF True refl nm sl[symmetric] refl refl "1.prems"(1)] "1.prems"(2) by simp
    then show ?thesis
      using True nm sl
      by (subst poll_request_token.simps) (auto simp: Let_def)
  qed
qed

lemma wait_for_request_token_no_marker:
  assumes "\<forall>t. \<not> str_contains (case url b t of None \<Rightarrow> [] | Some u \<Rightarrow> u) ''request_token=''"
    and "interrupt_at w = None" and "\<forall>t. url b t \<noteq> None"
  shows "\<exists>u w1. wait_for_request_token_api q b timeout w = (Inr (None, None, u), [], w1)
           \<and> url b (now w1) = Some u"
proof -
  from poll_no_marker[OF assms(1,2), of q "now w + timeout"] obtain w1 where
    "poll_request_token q b (now w + timeout) w =
       ((case url b (now w1) of None \<Rightarrow> Inl WebDriverException
         | Some u \<Rightarrow> Inr (None, None, u)), [], w1)" by blast
  moreover from assms(3) obtain u where "url b (now w1) = Some u" by auto
  ultimately show ?thesis by (auto simp: wait_for_request_token_api_def)
qed

text \<open>
  C3 (code defect). The browser has crashed, so every read of \<^verbatim>\<open>driver.current_url\<close>
  raises. Inside the loop the failure is swallowed, but the read in the final
  \<^verbatim>\<open>return None, None, driver.current_url\<close> (line 241 of the OAuth script, line 113 of the
  dashboard script) is unguarded: the poller raises instead of returning an empty
  artifact.
\<close>

theorem poller_raises_when_url_read_fails:
  "fst (wait_for_request_token_api q crashed_browser 1000 world0) = Inl WebDriverException
   \<and> fst (wait_for_request_token_kite q crashed_browser 1000 world0) = Inl WebDriverException"
  by (simp add: wait_for_request_token_api_def wait_for_request_token_kite_def
        poll_request_token.simps crashed_browser_def blank_browser_def world0_def sleep_def)

section \<open>The OTP field locator\<close>

text \<open>The locator of the OAuth script returns only handles that were displayed and enabled
  when it queried them (no time passes between the query and the return).\<close>

lemma filter_exn_Inr:
  "filter_exn p xs = Inr ys \<Longrightarrow> \<forall>y\<in>set ys. p y = Inr True"
proof (induction xs arbitrary: ys)
  case Nil
  then show ?case by simp
next
  case (Cons x xs)
  then show ?case
    by (auto split: sum.splits if_splits)
qed

lemma probe_otp_api_visible:
  "probe_otp_api b t = Some hs \<Longrightarrow> \<forall>h\<in>set hs. displayed_and_enabled b t h = Inr True"
  unfolding probe_otp_api_def except_pass_def probe_id_api_def probe_split_api_def
    probe_fallback_api_def
  by (auto split: option.splits sum.splits list.splits if_splits dest: filter_exn_Inr)

lemma poll_otp_fields_api_visible:
  "poll_otp_fields_api b end_t w = (Inr hs, evs, w1) \<Longrightarrow>
   \<forall>h\<in>set hs. displayed_and_enabled b (now w1) h = Inr True"
proof (induction b end_t w rule: poll_otp_fields_api.induct)
  case (1 b end_t w)
  show ?case
  proof (cases "now w < end_t")
    case False
    with "1.prems" show ?thesis by (subst (asm) poll_otp_fields_api.simps) auto
  next
    case True
    show ?thesis
    proof (cases "probe_otp_api b (now w)")
      case (Some r)
      with True "1.prems" have "hs = r" "w1 = w"
        by (subst (asm) poll_otp_fields_api.simps; simp)+
      with Some show ?thesis using probe_otp_api_visible by blast
    next
      case None
      obtain r ev w2 where sl: "sleep 400 w = (r, ev, w2)" by (cases "sleep 400 w") auto
      with True None "1.prems" obtain u where r: "r = Inr u"
        and rec: "poll_otp_fields_api b end_t w2 = (Inr hs, evs, w1)"
        by (subst (asm) poll_otp_fields_api.simps) (auto split: sum.splits)
      from "1.IH"[OF True None sl[symmetric] _ _ rec] r show ?thesis by simp
    qed
  qed
qed

lemma find_otp_fields_api_visible:
  "find_otp_fields_api b timeout w = (Inr hs, evs, w1) \<Longrightarrow>
   \<forall>h\<in>set hs. displayed_and_enabled b (now w1) h = Inr True"
  unfolding find_otp_fields_api_def by (rule poll_otp_fields_api_visible)

text \<open>
  C4 (code defect). The locator of the dashboard script returns whatever carries the id
  \<open>totp\<close> (or \<open>pin\<close>) without asking whether it is displayed or enabled, and filters
  password inputs on displayed only: a hidden \<open>totp\<close> field and a disabled password field
  are returned.
\<close>

theorem locator_kite_returns_hidden_field:
  "find_otp_fields_kite hidden_totp 15000 world0 = (Inr [7], [], world0)
   \<and> is_displayed hidden_totp 0 7 = Inr False
   \<and> find_otp_fields_kite disabled_password 15000 world0 = (Inr [8], [], world0)
   \<and> is_enabled disabled_password 0 8 = Inr False"
  by (simp add: find_otp_fields_kite_def poll_otp_fields_kite.simps probe_otp_kite_def
        except_pass_def find_elements_def by_id_def xp_split_boxes_def xp_numeric_kite_def
        xp_password_def is_displayed_def is_enabled_def displayed_and_enabled_def lookup_def
        hidden_totp_def disabled_password_def blank_browser_def input_box_def world0_def)

section \<open>The account loader\<close>

text \<open>The loader of the OAuth script never raises and leaves the world as it is: every
  row yields either an account or one warning.\<close>

lemma read_rows_api_total:
  "\<exists>rows evs. read_rows_api rs w = (Inr rows, evs, w)
     \<and> length rows + length evs = length rs"
proof (induction rs)
  case Nil
  then show ?case by (simp add: ret_def)
next
  case (Cons r rs)
  then show ?case
    by (auto simp: Let_def run_defs split: prod.splits sum.splits)
qed

text \<open>
  C8 (code defect). On a file headed \<open>userid,password,totp\<close> the loader of the dashboard
  script raises \<open>KeyError\<close> where the loader of the OAuth script reads the account; on a
  file whose second row lacks its seed the dashboard loader keeps the row, with \<open>None\<close>
  for the seed, where the OAuth loader skips it.
\<close>

theorem loader_kite_rejects_alternate_header:
  "fst (read_accounts_kite (env0\<lparr>accounts_file := Some alt_header_file\<rparr>) world0) = Inl KeyError
   \<and> fst (read_accounts_api (env0\<lparr>accounts_file := Some alt_header_file\<rparr>) world0)
       = Inr [(''U1'', ''pw1'', ''JBSWY3DPEHPK3PXP'')]
   \<and> fst (read_accounts_kite (env0\<lparr>accounts_file := Some short_row_file\<rparr>) world0)
       = Inr [(Some ''U1'', Some ''pw1'', Some ''JBSWY3DPEHPK3PXP''), (Some ''U2'', Some ''pw2'', None),
              (Some ''U3'', Some ''pw3'', Some ''GEZDGNBVGY3TQOJQ'')]
   \<and> fst (read_accounts_api (env0\<lparr>accounts_file := Some short_row_file\<rparr>) world0)
       = Inr [(''U1'', ''pw1'', ''JBSWY3DPEHPK3PXP''), (''U3'', ''pw3'', ''GEZDGNBVGY3TQOJQ'')]"
  by (simp add: read_accounts_kite_def read_accounts_api_def DictReader_def dict_row_def
        dict_index_def dict_get_def py_or_def truthy_def strip_def is_space_def
        alt_header_file_def short_row_file_def env0_def world0_def run_defs Let_def)

section \<open>The token store\<close>




section \<open>The login orchestrators\<close>

lemma after_locate_api_empty:
  "fst (after_locate_api env b (user_id, password, totp_secret) [] w) \<in> {Inr False, Inl ValueError}
   \<and> Log ERROR (''No OTP fields found for '' @ user_id)
        \<in> set (fst (snd (after_locate_api env b (user_id, password, totp_secret) [] w)))
   \<and> Screenshot (''no_otp_'' @ user_id) (now w div 1000) (shot_ok b (now w))
        \<in> set (fst (snd (after_locate_api env b (user_id, password, totp_secret) [] w)))
   \<and> snd (snd (after_locate_api env b (user_id, password, totp_secret) [] w)) = w"
  by (simp add: after_locate_api_def next_do_run emit_def screenshot_api_def send_email_def
        ret_def raise_def)

text \<open>
  C6 (as amended). When the credentials have been submitted and the OTP field locator
  returns the empty list, the attempt returns \<open>False\<close>, having logged the error that no
  OTP field was found and having asked the browser for a screenshot named \<open>no_otp_\<close> and
  the account's id. Whether a screenshot exists afterwards is up to the browser: the
  last component of the event is what the browser answered at that instant, and a
  failure to save is swallowed by \<^verbatim>\<open>screenshot\<close> and changes nothing else. Both scripts.
\<close>

theorem otp_field_not_found_fails:
  "(build_driver env (now w) = Inr b
      \<and> submit_credentials_api env b user_id password w = (Inr (), ev1, w1)
      \<and> find_otp_fields_api b 18000 w1 = (Inr [], ev2, w2)
    \<longrightarrow> fst (perform_oauth_login env (user_id, password, totp_secret) w) = Inr False
      \<and> Log ERROR (''No OTP fields found for '' @ user_id)
           \<in> set (fst (snd (perform_oauth_login env (user_id, password, totp_secret) w)))
      \<and> Screenshot (''no_otp_'' @ user_id) (now w2 div 1000) (shot_ok b (now w2))
           \<in> set (fst (snd (perform_oauth_login env (user_id, password, totp_secret) w))))
   \<and> (build_driver env (now w) = Inr b
      \<and> submit_credentials_kite b uid pwd w = (Inr (), ev1, w1)
      \<and> find_otp_fields_kite b 15000 w1 = (Inr [], ev2, w2)
    \<longrightarrow> fst (perform_login_for_account env (uid, pwd, totp) w) = Inr False
      \<and> Log ERROR ''OTP field not found''
           \<in> set (fst (snd (perform_login_for_account env (uid, pwd, totp) w)))
      \<and> Screenshot (''no_otp_'' @ pystr uid) (now w2 div 1000) (shot_ok b (now w2))
           \<in> set (fst (snd (perform_login_for_account env (uid, pwd, totp) w))))"
proof (intro conjI impI)
  assume h: "build_driver env (now w) = Inr b
      \<and> submit_credentials_api env b user_id password w = (Inr (), ev1, w1)
      \<and> find_otp_fields_api b 18000 w1 = (Inr [], ev2, w2)"
  let ?L = "after_locate_api env b (user_id, password, totp_secret) [] w2"
  obtain r ev w3 where L: "?L = (r, ev, w3)" by (cases ?L) auto
  from after_locate_api_empty[of env b user_id password totp_secret w2] L
  have r: "r = Inr False \<or> r = Inl ValueError"
    and lg: "Log ERROR (''No OTP fields found for '' @ user_id) \<in> set ev"
    and sh: "Screenshot (''no_otp_'' @ user_id) (now w2 div 1000) (shot_ok b (now w2)) \<in> set ev"
    by auto
  have run: "perform_oauth_login env (user_id, password, totp_secret) w =
     (Inr False,
      [Log INFO (''=== Login start: '' @ user_id @ '' ===''),
       Log INFO (''Login URL: '' @ login_url env)] @ ev1 @ ev2 @ ev
      @ (if r = Inr False then [] else fst (snd (on_exception_api b user_id ValueError w3)))
      @ (if quit_ok b (now w3) then [Quit] else []), w3)"
    using h L r
    by (auto simp: perform_oauth_login_def next_do_run bind_def emit_def get_time_def
          try_finally_def try_except_Exception_def try_except_def pass_Exception_def
          quit_def ret_def raise_def is_Exception_def on_exception_api_def screenshot_api_def
          is_WebDriverException_def)
  show "fst (perform_oauth_login env (user_id, password, totp_secret) w) = Inr False"
    by (simp add: run)
  show "Log ERROR (''No OTP fields found for '' @ user_id)
           \<in> set (fst (snd (perform_oauth_login env (user_id, password, totp_secret) w)))"
    using lg by (simp add: run)
  show "Screenshot (''no_otp_'' @ user_id) (now w2 div 1000) (shot_ok b (now w2))
           \<in> set (fst (snd (perform_oauth_login env (user_id, password, totp_secret) w)))"
    using sh by (simp add: run)
next
  assume h: "build_driver env (now w) = Inr b
      \<and> submit_credentials_kite b uid pwd w = (Inr (), ev1, w1)
      \<and> find_otp_fields_kite b 15000 w1 = (Inr [], ev2, w2)"
  have run: "perform_login_for_account env (uid, pwd, totp) w =
     (Inr False,
      [Log INFO (''Starting login for '' @ pystr uid)] @ ev1 @ ev2
      @ [Log ERROR ''OTP field not found'',
         Screenshot (''no_otp_'' @ pystr uid) (now w2 div 1000) (shot_ok b (now w2))]
      @ (if shot_ok b (now w2) then [Log INFO ''Screenshot saved''] else []), w2)"
    using h
    by (simp add: perform_login_for_account_def after_locate_kite_def next_do_run bind_def
          emit_def at_now_def try_except_Exception_def try_except_def ret_def
          screenshot_kite_def)
  show "fst (perform_login_for_account env (uid, pwd, totp) w) = Inr False"
    by (simp add: run)
  show "Log ERROR ''OTP field not found''
           \<in> set (fst (snd (perform_login_for_account env (uid, pwd, totp) w)))"
    by (simp add: run)
  show "Screenshot (''no_otp_'' @ pystr uid) (now w2 div 1000) (shot_ok b (now w2))
           \<in> set (fst (snd (perform_login_for_account env (uid, pwd, totp) w)))"
    by (simp add: run)
qed

lemmas browser_defs = find_elements_def find_element_def is_displayed_def is_enabled_def
  displayed_and_enabled_def lookup_def click_def clear_def send_keys_def execute_script_def
  get_def quit_def current_url_def

lemmas selector_defs = by_id_def by_tag_def xp_split_boxes_def xp_fallback_api_def
  xp_numeric_kite_def xp_password_def xp_submit_def xp_continue_api_def xp_continue_kite_def
  xp_dashboard_def

lemmas scenario_defs = world0_def blank_browser_def input_box_def button_def login_form_def
  otp_form_def scenario_a_def scenario_c_def env0_def env_c_def toy_cipher_def toy_qs_def

text \<open>Scenario C, evaluated: the credentials are submitted within the first second, and
  both locators poll an empty page until their timeout.\<close>

lemma submit_c_api:
  "submit_credentials_api env_c scenario_c ''U3'' ''pw3'' world0 =
     (Inr (), [Get ''https://kite.zerodha.com/connect/login'', Clear 1, SendKeys 1 ''U3'',
               Clear 2, SendKeys 2 ''pw3'', Click 3, Log INFO ''Submitted credentials''],
      world0\<lparr>now := 1000\<rparr>)"
  by (simp add: submit_credentials_api_def run_defs WebDriverWait_until_def wait_until.simps
        presence_of_element_located_def browser_defs selector_defs scenario_defs sleep_def)

lemma submit_c_kite:
  "submit_credentials_kite scenario_c (Some ''U3'') (Some ''pw3'') world0 =
     (Inr (), [Get ''https://kite.zerodha.com/'', Clear 1, SendKeys 1 ''U3'',
               Clear 2, SendKeys 2 ''pw3'', Click 3, Log INFO ''Submitted credentials''],
      world0\<lparr>now := 1000\<rparr>)"
  by (simp add: submit_credentials_kite_def run_defs WebDriverWait_until_def wait_until.simps
        presence_of_element_located_def browser_defs selector_defs scenario_defs sleep_def
        send_keys_opt_def)

lemma find_c_api:
  "find_otp_fields_api scenario_c 18000 (world0\<lparr>now := 1000\<rparr>) =
     (Inr [], [], world0\<lparr>now := 19000\<rparr>)"
  by (simp add: find_otp_fields_api_def poll_otp_fields_api.simps probe_otp_api_def
        probe_id_api_def probe_split_api_def probe_fallback_api_def except_pass_def
        browser_defs scenario_defs sleep_def)

lemma find_c_kite:
  "find_otp_fields_kite scenario_c 15000 (world0\<lparr>now := 1000\<rparr>) =
     (Inr [], [], world0\<lparr>now := 16000\<rparr>)"
  by (simp add: find_otp_fields_kite_def poll_otp_fields_kite.simps probe_otp_kite_def
        except_pass_def browser_defs scenario_defs sleep_def)

theorem otp_field_not_found_fails_witness:
  "fst (perform_oauth_login env_c (''U3'', ''pw3'', ''GEZDGNBVGY3TQOJQ'') world0) = Inr False
   \<and> Log ERROR ''No OTP fields found for U3''
        \<in> set (fst (snd (perform_oauth_login env_c (''U3'', ''pw3'', ''GEZDGNBVGY3TQOJQ'') world0)))
   \<and> Screenshot ''no_otp_U3'' 19 True
        \<in> set (fst (snd (perform_oauth_login env_c (''U3'', ''pw3'', ''GEZDGNBVGY3TQOJQ'') world0)))
   \<and> fst (perform_login_for_account env_c (Some ''U3'', Some ''pw3'', Some ''GEZDGNBVGY3TQOJQ'') world0)
       = Inr False
   \<and> Log ERROR ''OTP field not found''
        \<in> set (fst (snd (perform_login_for_account env_c
                           (Some ''U3'', Some ''pw3'', Some ''GEZDGNBVGY3TQOJQ'') world0)))
   \<and> Screenshot ''no_otp_U3'' 16 True
        \<in> set (fst (snd (perform_login_for_account env_c
                           (Some ''U3'', Some ''pw3'', Some ''GEZDGNBVGY3TQOJQ'') world0)))"
proof -
  have b: "build_driver env_c (now world0) = Inr scenario_c"
    by (simp add: env_c_def env0_def)
  have s1: "shot_ok scenario_c 19000" "shot_ok scenario_c 16000"
    by (simp_all add: scenario_c_def blank_browser_def)
  from otp_field_not_found_fails[of env_c world0 scenario_c "''U3''" "''pw3''"
      "[Get ''https://kite.zerodha.com/connect/login'', Clear 1, SendKeys 1 ''U3'',
               Clear 2, SendKeys 2 ''pw3'', Click 3, Log INFO ''Submitted credentials'']"
      "world0\<lparr>now := 1000\<rparr>" "[]" "world0\<lparr>now := 19000\<rparr>" "''GEZDGNBVGY3TQOJQ''"]
    b submit_c_api find_c_api s1
  have api: "fst (perform_oauth_login env_c (''U3'', ''pw3'', ''GEZDGNBVGY3TQOJQ'') world0) = Inr False
   \<and> Log ERROR ''No OTP fields found for U3''
        \<in> set (fst (snd (perform_oauth_login env_c (''U3'', ''pw3'', ''GEZDGNBVGY3TQOJQ'') world0)))
   \<and> Screenshot ''no_otp_U3'' 19 True
        \<in> set (fst (snd (perform_oauth_login env_c (''U3'', ''pw3'', ''GEZDGNBVGY3TQOJQ'') world0)))"
    by simp
  from otp_field_not_found_fails[of env_c world0 scenario_c _ _
      "[Get ''https://kite.zerodha.com/'', Clear 1, SendKeys 1 ''U3'',
               Clear 2, SendKeys 2 ''pw3'', Click 3, Log INFO ''Submitted credentials'']"
      "world0\<lparr>now := 1000\<rparr>" "[]" "world0\<lparr>now := 16000\<rparr>" _ "Some ''U3''" "Some ''pw3''"
      "Some ''GEZDGNBVGY3TQOJQ''"]
    b submit_c_kite find_c_kite s1
  have kite: "fst (perform_login_for_account env_c (Some ''U3'', Some ''pw3'', Some ''GEZDGNBVGY3TQOJQ'') world0)
       = Inr False
   \<and> Log ERROR ''OTP field not found''
        \<in> set (fst (snd (perform_login_for_account env_c
                           (Some ''U3'', Some ''pw3'', Some ''GEZDGNBVGY3TQOJQ'') world0)))
   \<and> Screenshot ''no_otp_U3'' 16 True
        \<in> set (fst (snd (perform_login_for_account env_c
                           (Some ''U3'', Some ''pw3'', Some ''GEZDGNBVGY3TQOJQ'') world0)))"
    by (simp add: pystr_def)
  from api kite show ?thesis by simp
qed

text \<open>Where the claim fails as stated, that a screenshot is captured: the browser
  crashes right after the credentials were submitted. Both locators find nothing until
  their timeout, both attempts return \<open>False\<close>, and the only screenshot either asked for
  was not saved.\<close>

lemma submit_crash_api:
  "submit_credentials_api env_crash crash_after_submit ''U3'' ''pw3'' world0 =
     (Inr (), [Get ''https://kite.zerodha.com/connect/login'', Clear 1, SendKeys 1 ''U3'',
               Clear 2, SendKeys 2 ''pw3'', Click 3, Log INFO ''Submitted credentials''],
      world0\<lparr>now := 1000\<rparr>)"
  by (simp add: submit_credentials_api_def run_defs WebDriverWait_until_def wait_until.simps
        presence_of_element_located_def browser_defs selector_defs scenario_defs sleep_def
        crash_after_submit_def env_crash_def)

lemma submit_crash_kite:
  "submit_credentials_kite crash_after_submit (Some ''U3'') (Some ''pw3'') world0 =
     (Inr (), [Get ''https://kite.zerodha.com/'', Clear 1, SendKeys 1 ''U3'',
               Clear 2, SendKeys 2 ''pw3'', Click 3, Log INFO ''Submitted credentials''],
      world0\<lparr>now := 1000\<rparr>)"
  by (simp add: submit_credentials_kite_def run_defs WebDriverWait_until_def wait_until.simps
        presence_of_element_located_def browser_defs selector_defs scenario_defs sleep_def
        send_keys_opt_def crash_after_submit_def)

lemma find_crash_api:
  "find_otp_fields_api crash_after_submit 18000 (world0\<lparr>now := 1000\<rparr>) =
     (Inr [], [], world0\<lparr>now := 19000\<rparr>)"
  by (simp add: find_otp_fields_api_def poll_otp_fields_api.simps probe_otp_api_def
        probe_id_api_def probe_split_api_def probe_fallback_api_def except_pass_def
        browser_defs scenario_defs sleep_def crash_after_submit_def)

lemma find_crash_kite:
  "find_otp_fields_kite crash_after_submit 15000 (world0\<lparr>now := 1000\<rparr>) =
     (Inr [], [], world0\<lparr>now := 16000\<rparr>)"
  by (simp add: find_otp_fields_kite_def poll_otp_fields_kite.simps probe_otp_kite_def
        except_pass_def browser_defs scenario_defs sleep_def crash_after_submit_def)

theorem screenshot_not_captured_counterexample:
  "fst (perform_oauth_login env_crash (''U3'', ''pw3'', ''GEZDGNBVGY3TQOJQ'') world0) = Inr False
   \<and> screenshots (fst (snd (perform_oauth_login env_crash
                               (''U3'', ''pw3'', ''GEZDGNBVGY3TQOJQ'') world0)))
       = [(''no_otp_U3'', 19, False)]
   \<and> fst (perform_login_for_account env_crash
            (Some ''U3'', Some ''pw3'', Some ''GEZDGNBVGY3TQOJQ'') world0) = Inr False
   \<and> screenshots (fst (snd (perform_login_for_account env_crash
                               (Some ''U3'', Some ''pw3'', Some ''GEZDGNBVGY3TQOJQ'') world0)))
       = [(''no_otp_U3'', 16, False)]"
proof -
  have env: "build_driver env_crash (now world0) = Inr crash_after_submit"
    "login_url env_crash = ''https://kite.zerodha.com/connect/login''"
    "notify_email env_crash = None"
    by (simp_all add: env_crash_def env0_def)
  have sh: "\<not> shot_ok crash_after_submit 19000" "\<not> shot_ok crash_after_submit 16000"
    "\<not> quit_ok crash_after_submit 19000"
    by (simp_all add: crash_after_submit_def)
  have n: "now (world0\<lparr>now := 19000\<rparr>) = 19000" "now (world0\<lparr>now := 16000\<rparr>) = 16000"
    by simp_all
  have api: "perform_oauth_login env_crash (''U3'', ''pw3'', ''GEZDGNBVGY3TQOJQ'') world0 =
     (Inr False,
      [Log INFO ''=== Login start: U3 ==='',
       Log INFO ''Login URL: https://kite.zerodha.com/connect/login'',
       Get ''https://kite.zerodha.com/connect/login'', Clear 1, SendKeys 1 ''U3'',
       Clear 2, SendKeys 2 ''pw3'', Click 3, Log INFO ''Submitted credentials'',
       Log ERROR ''No OTP fields found for U3'', Screenshot ''no_otp_U3'' 19 False,
       Log WARNING ''Failed to save screenshot''],
      world0\<lparr>now := 19000\<rparr>)"
    unfolding perform_oauth_login_def after_locate_api_def
    by (simp add: next_do_run bind_def get_time_def emit_def ret_def raise_def
          try_except_Exception_def try_except_def try_finally_def pass_Exception_def quit_def
          screenshot_api_def send_email_def truthy_def is_Exception_def
          env submit_crash_api find_crash_api sh n
          del: world.simps)
  have kite: "perform_login_for_account env_crash
                (Some ''U3'', Some ''pw3'', Some ''GEZDGNBVGY3TQOJQ'') world0 =
     (Inr False,
      [Log INFO ''Starting login for U3'', Get ''https://kite.zerodha.com/'', Clear 1,
       SendKeys 1 ''U3'', Clear 2, SendKeys 2 ''pw3'', Click 3,
       Log INFO ''Submitted credentials'', Log ERROR ''OTP field not found'',
       Screenshot ''no_otp_U3'' 16 False],
      world0\<lparr>now := 16000\<rparr>)"
    unfolding perform_login_for_account_def after_locate_kite_def
    by (simp add: next_do_run bind_def at_now_def emit_def ret_def
          try_except_Exception_def try_except_def screenshot_kite_def pystr_def
          env submit_crash_kite find_crash_kite sh n
          del: world.simps)
  show ?thesis by (simp add: api kite)
qed

section \<open>The continuation trigger\<close>

lemma clicks_append: "clicks (xs @ ys) = clicks xs @ clicks ys"
  by (induction xs rule: clicks.induct) auto

lemma wait_until_Inr:
  "wait_until cond end_t w = (Inr v, ev, w1) \<Longrightarrow> cond (now w1) = Inr (Some v) \<and> ev = []"
proof (induction cond end_t w rule: wait_until.induct)
  case (1 cond end_t w)
  obtain r e w2 where sl: "sleep 500 w = (r, e, w2)" by (cases "sleep 500 w") auto
  have e: "r = Inr () \<Longrightarrow> e = []" using sl by (auto simp: sleep_def split: option.splits if_splits)
  show ?case
  proof (cases "(case cond (now w) of
              Inr (Some v) \<Rightarrow> Some (Inr v)
            | Inr None \<Rightarrow> None
            | Inl e \<Rightarrow> if e = NoSuchElementException then None else Some (Inl e))")
    case (Some res)
    with "1.prems" show ?thesis
      by (subst (asm) wait_until.simps) (auto split: sum.splits option.splits if_splits)
  next
    case None
    with "1.prems" sl have nt: "\<not> end_t < now w" and "r = Inr ()"
      and rec: "wait_until cond end_t w2 = (Inr v, ev, w1)"
      by (subst (asm) wait_until.simps; auto split: sum.splits if_splits)+
    from "1.IH"[OF None nt sl[symmetric] \<open>r = Inr ()\<close> refl rec] show ?thesis .
  qed
qed

lemma wait_until_events:
  "wait_until cond end_t w = (r, ev, w1) \<Longrightarrow> ev = []"
proof (induction cond end_t w rule: wait_until.induct)
  case (1 cond end_t w)
  obtain r2 e w2 where sl: "sleep 500 w = (r2, e, w2)" by (cases "sleep 500 w") auto
  have e: "e = []" using sl by (auto simp: sleep_def split: option.splits if_splits)
  show ?case
  proof (cases "(case cond (now w) of
              Inr (Some v) \<Rightarrow> Some (Inr v)
            | Inr None \<Rightarrow> None
            | Inl e \<Rightarrow> if e = NoSuchElementException then None else Some (Inl e))")
    case (Some res)
    with "1.prems" show ?thesis
      by (subst (asm) wait_until.simps) (auto split: sum.splits option.splits if_splits)
  next
    case None
    show ?thesis
    proof (cases "end_t < now w")
      case True
      with None "1.prems" show ?thesis
        by (subst (asm) wait_until.simps) auto
    next
      case False
      show ?thesis
      proof (cases r2)
        case (Inl x)
        with None False "1.prems" sl e show ?thesis
          by (subst (asm) wait_until.simps) auto
      next
        case (Inr u)
        with None False "1.prems" sl have rec: "wait_until cond end_t w2 = (r, ev, w1)"
          by (subst (asm) wait_until.simps) auto
        from "1.IH"[OF None False sl[symmetric] Inr refl rec] show ?thesis .
      qed
    qed
  qed
qed

text \<open>The library wait, at the level of the page: a condition that holds at once ends the
  wait at once; a condition that never holds, with no cancellation signal pending, ends
  it with a timeout at the first poll past the deadline.\<close>

lemma wait_at_once:
  "cond (now w) = Inr (Some v) \<Longrightarrow> WebDriverWait_until T cond w = (Inr v, [], w)"
  by (simp add: WebDriverWait_until_def wait_until.simps)

lemma wait_until_times_out:
  "(\<And>t. cond t = Inr None \<or> cond t = Inl NoSuchElementException) \<Longrightarrow> interrupt_at w = None \<Longrightarrow>
   wait_until cond end_t w =
     (Inl TimeoutException, [],
      w\<lparr>now := now w + 500 * (if end_t < now w then 0 else (end_t - now w) div 500 + 1)\<rparr>)"
proof (induction cond end_t w rule: wait_until.induct)
  case (1 cond end_t w)
  note C = "1.prems"(1) and calm = "1.prems"(2)
  from C[of "now w"] have poll: "(case cond (now w) of
              Inr (Some v) \<Rightarrow> Some (Inr v)
            | Inr None \<Rightarrow> None
            | Inl e \<Rightarrow> if e = NoSuchElementException then None else Some (Inl e)) = None"
    by auto
  show ?case
  proof (cases "end_t < now w")
    case True
    with poll show ?thesis by (subst wait_until.simps) simp
  next
    case False
    have sl: "sleep 500 w = (Inr (), [], w\<lparr>now := now w + 500\<rparr>)"
      using calm by (simp add: sleep_None)
    have calm2: "interrupt_at (w\<lparr>now := now w + 500\<rparr>) = None" using calm by simp
    from "1.IH"[OF poll False sl[symmetric] refl refl C calm2]
    have rec: "wait_until cond end_t (w\<lparr>now := now w + 500\<rparr>) =
       (Inl TimeoutException, [],
        w\<lparr>now := now w + 500 + 500 * (if end_t < now w + 500 then 0
                                        else (end_t - (now w + 500)) div 500 + 1)\<rparr>)"
      by simp
    have ar: "now w + 500 + 500 * (if end_t < now w + 500 then 0
                                        else (end_t - (now w + 500)) div 500 + 1)
              = now w + 500 * ((end_t - now w) div 500 + 1)"
    proof (cases "end_t < now w + 500")
      case True
      with False have "(end_t - now w) div 500 = 0" by simp
      with True show ?thesis by simp
    next
      case F2: False
      then have "(end_t - now w) div 500 = (end_t - now w - 500) div 500 + 1"
        by (simp add: le_div_geq)
      with F2 show ?thesis by simp
    qed
    from poll False sl rec ar show ?thesis
      by (subst wait_until.simps) simp
  qed
qed

lemma wait_times_out:
  assumes "\<And>t. cond t = Inr None \<or> cond t = Inl NoSuchElementException"
    and "interrupt_at w = None"
  shows "WebDriverWait_until T cond w =
           (Inl TimeoutException, [], w\<lparr>now := now w + 500 * (T div 500 + 1)\<rparr>)"
  using wait_until_times_out[of cond w "now w + T", OF assms]
  by (simp add: WebDriverWait_until_def)

lemma click_run:
  "click b h w = (r, ev, w1) \<Longrightarrow> w1 = w \<and> (r = Inr () \<and> ev = [Click h] \<or> r = Inl WebDriverException \<and> ev = [])"
  by (auto simp: click_def split: option.splits if_splits)

lemma displayed_and_enabled_exn:
  "displayed_and_enabled b t h = Inl e \<Longrightarrow> e = WebDriverException"
  by (auto simp: displayed_and_enabled_def is_displayed_def is_enabled_def
      split: option.splits sum.splits bool.splits)

lemma find_elements_exn: "find_elements b sel t = Inl e \<Longrightarrow> e = WebDriverException"
  by (auto simp: find_elements_def split: if_splits)

lemma find_element_exn: "find_element b sel t = Inl e \<Longrightarrow> is_Exception e"
  by (auto simp: find_element_def is_Exception_def dest: find_elements_exn
      split: sum.splits list.splits)

lemma bind_run:
  "m w = (Inr a, ev, w1) \<Longrightarrow> bind m f w = (case f a w1 of (r, ev2, w2) \<Rightarrow> (r, ev @ ev2, w2))"
  by (simp add: bind_def)

text \<open>A click, in terms of what the element takes.\<close>

lemma click_can_click:
  "click b h w = (if can_click b (now w) h then (Inr (), [Click h], w)
                  else (Inl WebDriverException, [], w))"
  by (simp add: click_def can_click_def split: option.splits)

text \<open>A waiting strategy of the dashboard trigger clicks the element its wait returned,
  and nothing else; when it fails it has clicked nothing.\<close>

lemma click_when_clickable_clicks:
  assumes "WebDriverWait_until T (element_to_be_clickable b sel) w = (Inr h, ev, w1)"
    and "can_click b (now w1) h"
  shows "click_when_clickable b T sel w = (Inr True, [Click h], w1)"
proof -
  from assms(1) have "ev = []"
    by (auto simp: WebDriverWait_until_def dest: wait_until_events)
  with assms show ?thesis
    by (simp add: click_when_clickable_def try_except_def bind_def next_do_def ret_def
          click_can_click)
qed

lemma click_when_clickable_fails:
  assumes "strategy_fails b T sel w w1"
  shows "click_when_clickable b T sel w = (Inr False, [], w1)"
proof -
  obtain r ev w2 where W: "WebDriverWait_until T (element_to_be_clickable b sel) w = (r, ev, w2)"
    by (cases "WebDriverWait_until T (element_to_be_clickable b sel) w") auto
  then have ev: "ev = []"
    by (auto simp: WebDriverWait_until_def dest: wait_until_events)
  show ?thesis
  proof (cases r)
    case (Inl e)
    with assms W ev show ?thesis
      by (simp add: strategy_fails_def click_when_clickable_def try_except_def bind_def ret_def)
  next
    case (Inr h)
    with assms W ev show ?thesis
      by (auto simp: strategy_fails_def click_when_clickable_def try_except_def bind_def
            next_do_def ret_def click_can_click)
  qed
qed

text \<open>The third strategy: the first displayed and enabled button is clicked.\<close>

lemma click_first_button_clicks:
  assumes "list_all (\<lambda>x. displayed_and_enabled b (now w) x = Inr False) pre"
    and "displayed_and_enabled b (now w) h = Inr True" and "can_click b (now w) h"
  shows "click_first_button b (pre @ h # post) w = (Inr True, [Click h], w)"
  using assms
proof (induction pre)
  case Nil
  then show ?case
    by (simp add: bind_def at_now_def next_do_def ret_def click_can_click)
next
  case (Cons x pre)
  then show ?case by (simp add: bind_def at_now_def)
qed

lemma click_first_button_none:
  assumes "list_all (\<lambda>x. displayed_and_enabled b (now w) x = Inr False) hs"
  shows "click_first_button b hs w = (Inr False, [], w)"
  using assms
proof (induction hs)
  case Nil
  then show ?case by (simp add: ret_def)
next
  case (Cons x hs)
  then show ?case by (simp add: bind_def at_now_def)
qed

text \<open>The trigger of the dashboard script, strategy by strategy.\<close>

lemma try_except_ret_returns:
  "\<exists>c ev w1. try_except m (\<lambda>e. ret v) w = (Inr c, ev, w1)"
proof -
  obtain r ev w1 where m: "m w = (r, ev, w1)" by (cases "m w") auto
  then show ?thesis by (cases r) (simp_all add: try_except_def ret_def)
qed

lemma click_continue_button_returns:
  "\<exists>c ev w1. click_continue_button b T w = (Inr c, ev, w1)"
  unfolding click_continue_button_def by (rule try_except_ret_returns)

lemma click_continue_button_first:
  assumes "WebDriverWait_until T (element_to_be_clickable b xp_continue_kite) w = (Inr h, ev, w1)"
    and "can_click b (now w1) h"
  shows "click_continue_button b T w = (Inr True, [Click h], w1)"
  using click_when_clickable_clicks[OF assms]
  by (simp add: click_continue_button_def try_except_def bind_def ret_def)

lemma click_continue_button_second:
  assumes "strategy_fails b T xp_continue_kite w wa"
    and "WebDriverWait_until T (element_to_be_clickable b xp_submit) wa = (Inr h, ev, w1)"
    and "can_click b (now w1) h"
  shows "click_continue_button b T w = (Inr True, [Click h], w1)"
  using click_when_clickable_fails[OF assms(1)] click_when_clickable_clicks[OF assms(2,3)]
  by (simp add: click_continue_button_def try_except_def bind_def ret_def)

lemma click_continue_button_third:
  assumes "strategy_fails b T xp_continue_kite w wa" and "strategy_fails b T xp_submit wa ws"
    and "find_elements b (by_tag ''button'') (now ws) = Inr (pre @ h # post)"
    and "list_all (\<lambda>x. displayed_and_enabled b (now ws) x = Inr False) pre"
    and "displayed_and_enabled b (now ws) h = Inr True" and "can_click b (now ws) h"
  shows "click_continue_button b T w = (Inr True, [Click h], ws)"
  using click_when_clickable_fails[OF assms(1)] click_when_clickable_fails[OF assms(2)]
    click_first_button_clicks[OF assms(4,5,6), of post] assms(3)
  by (simp add: click_continue_button_def try_except_def bind_def ret_def at_now_def)

lemma click_continue_button_none:
  assumes "strategy_fails b T xp_continue_kite w wa" and "strategy_fails b T xp_submit wa ws"
    and "find_elements b (by_tag ''button'') (now ws) = Inr hs"
    and "list_all (\<lambda>x. displayed_and_enabled b (now ws) x = Inr False) hs"
  shows "click_continue_button b T w = (Inr False, [], ws)"
  using click_when_clickable_fails[OF assms(1)] click_when_clickable_fails[OF assms(2)]
    click_first_button_none[OF assms(4)] assms(3)
  by (simp add: click_continue_button_def try_except_def bind_def ret_def at_now_def)

text \<open>The inline trigger of the OAuth script: its loop clicks the first listed button that
  passes the test, and passes over the others.\<close>

lemma click_continue_loop_step_fails:
  assumes "\<not> clickable_now b (now w) x"
  shows "try_except_Exception
             (bind (at_now (\<lambda>t. displayed_and_enabled b t x))
                (\<lambda>ok. if ok then next_do (click b x) (ret True) else ret False))
             (\<lambda>e. ret False) w = (Inr False, [], w)"
proof (cases "displayed_and_enabled b (now w) x")
  case (Inl e)
  with displayed_and_enabled_exn[OF Inl] show ?thesis
    by (simp add: try_except_Exception_def try_except_def bind_def at_now_def ret_def
          is_Exception_def)
next
  case (Inr ok)
  with assms show ?thesis
    by (cases ok)
       (simp_all add: clickable_now_def try_except_Exception_def try_except_def bind_def
          at_now_def ret_def next_do_def click_can_click is_Exception_def)
qed

lemma click_continue_loop_none:
  assumes "list_all (\<lambda>x. \<not> clickable_now b (now w) x) hs"
  shows "click_continue_loop b hs w = (Inr False, [], w)"
  using assms
proof (induction hs)
  case Nil
  then show ?case by (simp add: ret_def)
next
  case (Cons x hs)
  then have x: "\<not> clickable_now b (now w) x"
    and rest: "click_continue_loop b hs w = (Inr False, [], w)" by simp_all
  let ?T = "try_except_Exception
             (bind (at_now (\<lambda>t. displayed_and_enabled b t x))
                (\<lambda>ok. if ok then next_do (click b x) (ret True) else ret False))
             (\<lambda>e. ret False)"
  note s = bind_run[of ?T w, OF click_continue_loop_step_fails[OF x]]
  show ?case
    unfolding click_continue_loop.simps
    by (simp add: s rest)
qed

lemma click_continue_loop_clicks:
  assumes "list_all (\<lambda>x. \<not> clickable_now b (now w) x) pre" and "clickable_now b (now w) h"
  shows "click_continue_loop b (pre @ h # post) w = (Inr True, [Click h], w)"
  using assms
proof (induction pre)
  case Nil
  then show ?case
    by (simp add: clickable_now_def try_except_Exception_def try_except_def bind_def
          at_now_def ret_def next_do_def click_can_click)
next
  case (Cons x pre)
  then have x: "\<not> clickable_now b (now w) x"
    and rest: "click_continue_loop b (pre @ h # post) w = (Inr True, [Click h], w)"
    by simp_all
  let ?T = "try_except_Exception
             (bind (at_now (\<lambda>t. displayed_and_enabled b t x))
                (\<lambda>ok. if ok then next_do (click b x) (ret True) else ret False))
             (\<lambda>e. ret False)"
  note s = bind_run[of ?T w, OF click_continue_loop_step_fails[OF x]]
  show ?case
    unfolding append_Cons click_continue_loop.simps
    by (simp add: s rest)
qed

lemma click_continue_api_by_label:
  assumes "find_elements b xp_continue_api (now w) = Inr (pre @ h # post)"
    and "list_all (\<lambda>x. \<not> clickable_now b (now w) x) pre" and "clickable_now b (now w) h"
  shows "click_continue_api b w = (Inr True, [Click h], w)"
  using assms(1) click_continue_loop_clicks[OF assms(2,3), of post]
  by (simp add: click_continue_api_def try_except_Exception_def try_except_def bind_def
        at_now_def ret_def)

lemma click_continue_api_label_fails:
  assumes "find_elements b xp_continue_api (now w) = Inl e
           \<or> (find_elements b xp_continue_api (now w) = Inr hs
               \<and> list_all (\<lambda>x. \<not> clickable_now b (now w) x) hs)"
  shows "try_except_Exception
             (bind (at_now (find_elements b xp_continue_api)) (click_continue_loop b))
             (\<lambda>e. ret False) w = (Inr False, [], w)"
  using assms
proof
  assume f: "find_elements b xp_continue_api (now w) = Inl e"
  with find_elements_exn[OF f] show ?thesis
    by (simp add: try_except_Exception_def try_except_def bind_def at_now_def ret_def
          is_Exception_def)
next
  assume "find_elements b xp_continue_api (now w) = Inr hs
               \<and> list_all (\<lambda>x. \<not> clickable_now b (now w) x) hs"
  then show ?thesis
    using click_continue_loop_none[of b w hs]
    by (simp add: try_except_Exception_def try_except_def bind_def at_now_def)
qed

lemma click_continue_api_by_submit:
  assumes "find_elements b xp_continue_api (now w) = Inl e
           \<or> (find_elements b xp_continue_api (now w) = Inr hs
               \<and> list_all (\<lambda>x. \<not> clickable_now b (now w) x) hs)"
    and "find_element b xp_submit (now w) = Inr h" and "can_click b (now w) h"
  shows "click_continue_api b w = (Inr True, [Click h], w)"
  using click_continue_api_label_fails[OF assms(1)] assms(2,3)
  by (simp add: click_continue_api_def try_except_Exception_def try_except_def bind_def
        at_now_def ret_def next_do_def click_can_click)

lemma click_continue_api_nothing:
  assumes "find_elements b xp_continue_api (now w) = Inl e
           \<or> (find_elements b xp_continue_api (now w) = Inr hs
               \<and> list_all (\<lambda>x. \<not> clickable_now b (now w) x) hs)"
    and "find_element b xp_submit (now w) = Inl e2
         \<or> (find_element b xp_submit (now w) = Inr h \<and> \<not> can_click b (now w) h)"
  shows "click_continue_api b w = (Inr False, [], w)"
  using assms(2)
proof
  assume f: "find_element b xp_submit (now w) = Inl e2"
  with find_element_exn[OF f] click_continue_api_label_fails[OF assms(1)] show ?thesis
    by (simp add: click_continue_api_def try_except_Exception_def try_except_def bind_def
          at_now_def ret_def)
next
  assume "find_element b xp_submit (now w) = Inr h \<and> \<not> can_click b (now w) h"
  with click_continue_api_label_fails[OF assms(1)] show ?thesis
    by (simp add: click_continue_api_def try_except_Exception_def try_except_def bind_def
          at_now_def ret_def next_do_def click_can_click is_Exception_def)
qed

text \<open>
  C5 (as amended). The trigger of the dashboard script never raises and runs three
  strategies in order, each only when those before it have clicked nothing: (a) wait, up
  to the timeout, until the first button whose text contains \<open>Continue\<close> or \<open>CONTINUE\<close>
  (these two spellings, not any case) is displayed and enabled, and click it; (b) the
  same for the first button of type submit; (c) click the first displayed and enabled
  button of the page. The strategy that clicks ends the trigger with that one click. A
  wait whose condition holds at once returns at once, and one whose condition never
  holds times out at the first poll past the deadline. The inline trigger of the OAuth
  script has two strategies and no third: (a) click the first button, in document order,
  whose whitespace-normalised text is \<open>Continue\<close> or \<open>CONTINUE\<close> and that is displayed,
  enabled and takes the click; (b) only if (a) clicked nothing, click the first button of
  type submit; with neither it clicks nothing.
\<close>

theorem continuation_trigger_strategies:
  "(\<exists>c ev1 w2. click_continue_button b T w = (Inr c, ev1, w2))
   \<and> (WebDriverWait_until T (element_to_be_clickable b xp_continue_kite) w = (Inr h, ev, w1)
        \<and> can_click b (now w1) h
      \<longrightarrow> click_continue_button b T w = (Inr True, [Click h], w1))
   \<and> (strategy_fails b T xp_continue_kite w wa
        \<and> WebDriverWait_until T (element_to_be_clickable b xp_submit) wa = (Inr h, ev, w1)
        \<and> can_click b (now w1) h
      \<longrightarrow> click_continue_button b T w = (Inr True, [Click h], w1))
   \<and> (strategy_fails b T xp_continue_kite w wa \<and> strategy_fails b T xp_submit wa ws
        \<and> find_elements b (by_tag ''button'') (now ws) = Inr (pre @ h # post)
        \<and> list_all (\<lambda>x. displayed_and_enabled b (now ws) x = Inr False) pre
        \<and> displayed_and_enabled b (now ws) h = Inr True \<and> can_click b (now ws) h
      \<longrightarrow> click_continue_button b T w = (Inr True, [Click h], ws))
   \<and> (strategy_fails b T xp_continue_kite w wa \<and> strategy_fails b T xp_submit wa ws
        \<and> find_elements b (by_tag ''button'') (now ws) = Inr hs
        \<and> list_all (\<lambda>x. displayed_and_enabled b (now ws) x = Inr False) hs
      \<longrightarrow> click_continue_button b T w = (Inr False, [], ws))
   \<and> (element_to_be_clickable b sel (now w) = Inr (Some h)
      \<longrightarrow> WebDriverWait_until T (element_to_be_clickable b sel) w = (Inr h, [], w))
   \<and> ((\<forall>t. element_to_be_clickable b sel t = Inr None
             \<or> element_to_be_clickable b sel t = Inl NoSuchElementException)
        \<and> interrupt_at w = None
      \<longrightarrow> WebDriverWait_until T (element_to_be_clickable b sel) w
            = (Inl TimeoutException, [], w\<lparr>now := now w + 500 * (T div 500 + 1)\<rparr>))
   \<and> (find_elements b xp_continue_api (now w) = Inr (pre @ h # post)
        \<and> list_all (\<lambda>x. \<not> clickable_now b (now w) x) pre \<and> clickable_now b (now w) h
      \<longrightarrow> click_continue_api b w = (Inr True, [Click h], w))
   \<and> ((find_elements b xp_continue_api (now w) = Inl e
          \<or> (find_elements b xp_continue_api (now w) = Inr hs
               \<and> list_all (\<lambda>x. \<not> clickable_now b (now w) x) hs))
        \<and> find_element b xp_submit (now w) = Inr h \<and> can_click b (now w) h
      \<longrightarrow> click_continue_api b w = (Inr True, [Click h], w))
   \<and> ((find_elements b xp_continue_api (now w) = Inl e
          \<or> (find_elements b xp_continue_api (now w) = Inr hs
               \<and> list_all (\<lambda>x. \<not> clickable_now b (now w) x) hs))
        \<and> (find_element b xp_submit (now w) = Inl e2
             \<or> (find_element b xp_submit (now w) = Inr h \<and> \<not> can_click b (now w) h))
      \<longrightarrow> click_continue_api b w = (Inr False, [], w))"
proof (intro conjI impI)
  show "\<exists>c ev1 w2. click_continue_button b T w = (Inr c, ev1, w2)"
    by (rule click_continue_button_returns)
next
  assume "WebDriverWait_until T (element_to_be_clickable b xp_continue_kite) w = (Inr h, ev, w1)
        \<and> can_click b (now w1) h"
  then show "click_continue_button b T w = (Inr True, [Click h], w1)"
    using click_continue_button_first by blast
next
  assume "strategy_fails b T xp_continue_kite w wa
        \<and> WebDriverWait_until T (element_to_be_clickable b xp_submit) wa = (Inr h, ev, w1)
        \<and> can_click b (now w1) h"
  then show "click_continue_button b T w = (Inr True, [Click h], w1)"
    using click_continue_button_second by blast
next
  assume "strategy_fails b T xp_continue_kite w wa \<and> strategy_fails b T xp_submit wa ws
        \<and> find_elements b (by_tag ''button'') (now ws) = Inr (pre @ h # post)
        \<and> list_all (\<lambda>x. displayed_and_enabled b (now ws) x = Inr False) pre
        \<and> displayed_and_enabled b (now ws) h = Inr True \<and> can_click b (now ws) h"
  then show "click_continue_button b T w = (Inr True, [Click h], ws)"
    using click_continue_button_third by blast
next
  assume "strategy_fails b T xp_continue_kite w wa \<and> strategy_fails b T xp_submit wa ws
        \<and> find_elements b (by_tag ''button'') (now ws) = Inr hs
        \<and> list_all (\<lambda>x. displayed_and_enabled b (now ws) x = Inr False) hs"
  then show "click_continue_button b T w = (Inr False, [], ws)"
    using click_continue_button_none by blast
next
  assume "element_to_be_clickable b sel (now w) = Inr (Some h)"
  then show "WebDriverWait_until T (element_to_be_clickable b sel) w = (Inr h, [], w)"
    by (rule wait_at_once)
next
  assume a: "(\<forall>t. element_to_be_clickable b sel t = Inr None
             \<or> element_to_be_clickable b sel t = Inl NoSuchElementException)
        \<and> interrupt_at w = None"
  show "WebDriverWait_until T (element_to_be_clickable b sel) w
            = (Inl TimeoutException, [], w\<lparr>now := now w + 500 * (T div 500 + 1)\<rparr>)"
    by (rule wait_times_out) (use a in simp_all)
next
  assume "find_elements b xp_continue_api (now w) = Inr (pre @ h # post)
        \<and> list_all (\<lambda>x. \<not> clickable_now b (now w) x) pre \<and> clickable_now b (now w) h"
  then show "click_continue_api b w = (Inr True, [Click h], w)"
    using click_continue_api_by_label by blast
next
  assume "(find_elements b xp_continue_api (now w) = Inl e
          \<or> (find_elements b xp_continue_api (now w) = Inr hs
               \<and> list_all (\<lambda>x. \<not> clickable_now b (now w) x) hs))
        \<and> find_element b xp_submit (now w) = Inr h \<and> can_click b (now w) h"
  then show "click_continue_api b w = (Inr True, [Click h], w)"
    using click_continue_api_by_submit[of b w e hs h] by blast
next
  assume "(find_elements b xp_continue_api (now w) = Inl e
          \<or> (find_elements b xp_continue_api (now w) = Inr hs
               \<and> list_all (\<lambda>x. \<not> clickable_now b (now w) x) hs))
        \<and> (find_element b xp_submit (now w) = Inl e2
             \<or> (find_element b xp_submit (now w) = Inr h \<and> \<not> can_click b (now w) h))"
  then show "click_continue_api b w = (Inr False, [], w)"
    using click_continue_api_nothing[of b w e hs e2 h] by blast
qed

lemmas trigger_defs = click_continue_button_def click_when_clickable_def
  click_continue_api_def WebDriverWait_until_def wait_until.simps
  element_to_be_clickable_def presence_of_element_located_def

lemmas page_defs = element_to_be_clickable_def can_click_def clickable_now_def
  strategy_fails_def browser_defs selector_defs scenario_defs normalize_space_def is_ws_def
  cancel_then_continue_def cancel_then_submit_def login_then_continue_def
  hidden_continue_def cancel_continue_def

text \<open>Pages on which the strategies differ. The dashboard script: a plain "Continue"
  after "Cancel" is clicked at once by (a); with no "Continue", (a) times out and (b)
  clicks the submit button; a hidden first "Continue" makes (a) time out although a
  visible one follows; with neither, both time out and (c) clicks the first button. The
  OAuth script: "Continue" wins over an earlier submit button; a hidden "Continue" is
  passed over for the next; with no "Continue" the submit button is clicked.\<close>

theorem continuation_trigger_strategies_witness:
  "click_continue_button cancel_then_continue 10000 world0 = (Inr True, [Click 2], world0)
   \<and> click_continue_button cancel_then_submit 10000 world0
       = (Inr True, [Click 2], world0\<lparr>now := 10500\<rparr>)
   \<and> click_continue_button hidden_continue 10000 world0
       = (Inr True, [Click 3], world0\<lparr>now := 10500\<rparr>)
   \<and> click_continue_button cancel_continue 10000 world0
       = (Inr True, [Click 1], world0\<lparr>now := 21000\<rparr>)
   \<and> click_continue_api login_then_continue world0 = (Inr True, [Click 2], world0)
   \<and> click_continue_api hidden_continue world0 = (Inr True, [Click 2], world0)
   \<and> click_continue_api cancel_then_submit world0 = (Inr True, [Click 2], world0)"
proof -
  note T = continuation_trigger_strategies
  let ?w1 = "world0\<lparr>now := 10500\<rparr>" and ?w2 = "world0\<lparr>now := 21000\<rparr>"
  have calm: "interrupt_at world0 = None" "interrupt_at ?w1 = None"
    and t0: "now world0 = 0" "now ?w1 = 10500" "now ?w2 = 21000"
    and t1: "world0\<lparr>now := now world0 + 500 * (10000 div 500 + 1)\<rparr> = ?w1"
      "?w1\<lparr>now := now ?w1 + 500 * (10000 div 500 + 1)\<rparr> = ?w2"
    by (simp_all add: world0_def)
  \<comment> \<open>a plain Continue after Cancel\<close>
  have "element_to_be_clickable cancel_then_continue xp_continue_kite (now world0)
          = Inr (Some 2)"
    by (simp add: page_defs)
  with T[where b = cancel_then_continue and sel = xp_continue_kite and h = 2 and w = world0
      and T = 10000]
  have "WebDriverWait_until 10000 (element_to_be_clickable cancel_then_continue xp_continue_kite)
          world0 = (Inr 2, [], world0)" by blast
  moreover have "can_click cancel_then_continue (now world0) 2" by (simp add: page_defs)
  ultimately have k1: "click_continue_button cancel_then_continue 10000 world0
      = (Inr True, [Click 2], world0)"
    using T[where b = cancel_then_continue and h = 2 and w = world0 and T = 10000
        and ev = "[]" and ?w1.0 = world0] by blast
  \<comment> \<open>no Continue, a submit button\<close>
  have "\<forall>t. element_to_be_clickable cancel_then_submit xp_continue_kite t = Inr None
          \<or> element_to_be_clickable cancel_then_submit xp_continue_kite t
              = Inl NoSuchElementException"
    by (simp add: page_defs)
  with calm T[where b = cancel_then_submit and sel = xp_continue_kite and w = world0
      and T = 10000]
  have "WebDriverWait_until 10000 (element_to_be_clickable cancel_then_submit xp_continue_kite)
          world0 = (Inl TimeoutException, [], ?w1)"
    unfolding t1 by blast
  then have f2: "strategy_fails cancel_then_submit 10000 xp_continue_kite world0 ?w1"
    by (simp add: strategy_fails_def)
  have "element_to_be_clickable cancel_then_submit xp_submit (now ?w1) = Inr (Some 2)"
    by (simp add: page_defs)
  with T[where b = cancel_then_submit and sel = xp_submit and h = 2 and w = ?w1
      and T = 10000]
  have "WebDriverWait_until 10000 (element_to_be_clickable cancel_then_submit xp_submit) ?w1
          = (Inr 2, [], ?w1)" by blast
  moreover have "can_click cancel_then_submit (now ?w1) 2" by (simp add: page_defs)
  ultimately have k2: "click_continue_button cancel_then_submit 10000 world0
      = (Inr True, [Click 2], ?w1)"
    using f2 T[where b = cancel_then_submit and h = 2 and w = world0 and T = 10000
        and wa = ?w1 and ev = "[]" and ?w1.0 = ?w1] by blast
  \<comment> \<open>a hidden Continue before a visible one\<close>
  have "\<forall>t. element_to_be_clickable hidden_continue xp_continue_kite t = Inr None
          \<or> element_to_be_clickable hidden_continue xp_continue_kite t
              = Inl NoSuchElementException"
    by (simp add: page_defs)
  with calm T[where b = hidden_continue and sel = xp_continue_kite and w = world0
      and T = 10000]
  have "WebDriverWait_until 10000 (element_to_be_clickable hidden_continue xp_continue_kite)
          world0 = (Inl TimeoutException, [], ?w1)"
    unfolding t1 by blast
  then have f3: "strategy_fails hidden_continue 10000 xp_continue_kite world0 ?w1"
    by (simp add: strategy_fails_def)
  have "element_to_be_clickable hidden_continue xp_submit (now ?w1) = Inr (Some 3)"
    by (simp add: page_defs)
  with T[where b = hidden_continue and sel = xp_submit and h = 3 and w = ?w1 and T = 10000]
  have "WebDriverWait_until 10000 (element_to_be_clickable hidden_continue xp_submit) ?w1
          = (Inr 3, [], ?w1)" by blast
  moreover have "can_click hidden_continue (now ?w1) 3" by (simp add: page_defs)
  ultimately have k3: "click_continue_button hidden_continue 10000 world0
      = (Inr True, [Click 3], ?w1)"
    using f3 T[where b = hidden_continue and h = 3 and w = world0 and T = 10000
        and wa = ?w1 and ev = "[]" and ?w1.0 = ?w1] by blast
  \<comment> \<open>neither: both waits time out\<close>
  have "\<forall>t. element_to_be_clickable cancel_continue xp_continue_kite t = Inr None
          \<or> element_to_be_clickable cancel_continue xp_continue_kite t
              = Inl NoSuchElementException"
    by (simp add: page_defs)
  with calm T[where b = cancel_continue and sel = xp_continue_kite and w = world0
      and T = 10000]
  have "WebDriverWait_until 10000 (element_to_be_clickable cancel_continue xp_continue_kite)
          world0 = (Inl TimeoutException, [], ?w1)"
    unfolding t1 by blast
  then have f4: "strategy_fails cancel_continue 10000 xp_continue_kite world0 ?w1"
    by (simp add: strategy_fails_def)
  have "\<forall>t. element_to_be_clickable cancel_continue xp_submit t = Inr None
          \<or> element_to_be_clickable cancel_continue xp_submit t = Inl NoSuchElementException"
    by (simp add: page_defs)
  with calm T[where b = cancel_continue and sel = xp_submit and w = ?w1 and T = 10000]
  have "WebDriverWait_until 10000 (element_to_be_clickable cancel_continue xp_submit) ?w1
          = (Inl TimeoutException, [], ?w2)"
    unfolding t1 by blast
  then have f5: "strategy_fails cancel_continue 10000 xp_submit ?w1 ?w2"
    by (simp add: strategy_fails_def)
  have "find_elements cancel_continue (by_tag ''button'') (now ?w2) = Inr ([] @ 1 # [2])
      \<and> list_all (\<lambda>x. displayed_and_enabled cancel_continue (now ?w2) x = Inr False) []
      \<and> displayed_and_enabled cancel_continue (now ?w2) 1 = Inr True
      \<and> can_click cancel_continue (now ?w2) 1"
    by (simp add: page_defs)
  with f4 f5 have k4: "click_continue_button cancel_continue 10000 world0
      = (Inr True, [Click 1], ?w2)"
    using T[where b = cancel_continue and h = 1 and w = world0 and T = 10000
        and wa = ?w1 and ws = ?w2 and pre = "[]" and post = "[2]"] by blast
  \<comment> \<open>the OAuth script\<close>
  have "find_elements login_then_continue xp_continue_api (now world0) = Inr ([] @ 2 # [])
      \<and> list_all (\<lambda>x. \<not> clickable_now login_then_continue (now world0) x) []
      \<and> clickable_now login_then_continue (now world0) 2"
    by (simp add: page_defs)
  then have a1: "click_continue_api login_then_continue world0 = (Inr True, [Click 2], world0)"
    using T[where b = login_then_continue and h = 2 and w = world0 and pre = "[]"
        and post = "[]"] by blast
  have "find_elements hidden_continue xp_continue_api (now world0) = Inr ([1] @ 2 # [])
      \<and> list_all (\<lambda>x. \<not> clickable_now hidden_continue (now world0) x) [1]
      \<and> clickable_now hidden_continue (now world0) 2"
    by (simp add: page_defs)
  then have a2: "click_continue_api hidden_continue world0 = (Inr True, [Click 2], world0)"
    using T[where b = hidden_continue and h = 2 and w = world0 and pre = "[1]"
        and post = "[]"] by blast
  have "(find_elements cancel_then_submit xp_continue_api (now world0) = Inr []
          \<and> list_all (\<lambda>x. \<not> clickable_now cancel_then_submit (now world0) x) [])
      \<and> find_element cancel_then_submit xp_submit (now world0) = Inr 2
      \<and> can_click cancel_then_submit (now world0) 2"
    by (simp add: page_defs)
  then have a3: "click_continue_api cancel_then_submit world0 = (Inr True, [Click 2], world0)"
    using T[where b = cancel_then_submit and h = 2 and w = world0 and hs = "[]"] by blast
  from k1 k2 k3 k4 a1 a2 a3 show ?thesis by blast
qed

text \<open>Where the claim fails as stated. On a page with a plain "Cancel" button before a
  plain "continue" button, a case-insensitive first strategy would click the second;
  the dashboard script finds no match for either spelling, waits out both timeouts and
  clicks "Cancel". On a page whose only button is a displayed, enabled plain "Next", a
  third strategy would click it; the OAuth script clicks nothing.\<close>

theorem continuation_trigger_counterexample:
  "click_continue_button cancel_continue 10000 world0
     = (Inr True, [Click 1], world0\<lparr>now := 21000\<rparr>)
   \<and> map label (page cancel_continue 0) = [''Cancel'', ''continue'']
   \<and> displayed_and_enabled cancel_continue 0 2 = Inr True
   \<and> click_continue_api next_only world0 = (Inr False, [], world0)
   \<and> displayed_and_enabled next_only 0 1 = Inr True"
  by (simp add: trigger_defs run_defs browser_defs selector_defs scenario_defs
        cancel_continue_def next_only_def sleep_def normalize_space_def is_ws_def
        is_Exception_def)

section \<open>Invariants of actions\<close>

lemma holdsI:
  assumes "\<And>w r ev w1. I w \<Longrightarrow> m w = (r, ev, w1) \<Longrightarrow>
             I w1 \<and> list_all E ev \<and> (case r of Inl e \<Rightarrow> X e | Inr v \<Rightarrow> True)"
  shows "holds I X E m"
  unfolding holds_def
proof (intro allI impI)
  fix w assume "I w"
  obtain r ev w1 where "m w = (r, ev, w1)" by (cases "m w") auto
  with assms[OF \<open>I w\<close> this] show "I (snd (snd (m w))) \<and> list_all E (fst (snd (m w)))
        \<and> (case fst (m w) of Inl e \<Rightarrow> X e | Inr v \<Rightarrow> True)" by simp
qed

lemma holdsD:
  assumes "holds I X E m" "I w" "m w = (r, ev, w1)"
  shows "I w1" "list_all E ev" "\<And>e. r = Inl e \<Longrightarrow> X e"
  using assms unfolding holds_def by (auto dest!: spec[of _ w])

lemma holds_ret: "holds I X E (ret x)"
  by (simp add: holds_def ret_def)

lemma holds_raise: "X e \<Longrightarrow> holds I X E (raise e)"
  by (simp add: holds_def raise_def)

lemma holds_emit: "E e \<Longrightarrow> holds I X E (emit e)"
  by (simp add: holds_def emit_def)

lemma holds_lift: "(\<And>e. r = Inl e \<Longrightarrow> X e) \<Longrightarrow> holds I X E (lift r)"
  by (auto simp: holds_def lift_def split: sum.splits)


lemma holds_get_time: "holds I X E get_time"
  by (simp add: holds_def get_time_def)

lemma holds_bind:
  assumes m: "holds I X E m" and f: "\<And>a. holds I X E (f a)"
  shows "holds I X E (bind m f)"
proof (rule holdsI)
  fix w r ev w1 assume I: "I w" and run: "bind m f w = (r, ev, w1)"
  obtain r0 ev0 w0 where m0: "m w = (r0, ev0, w0)" by (cases "m w") auto
  note d = holdsD[OF m I m0]
  show "I w1 \<and> list_all E ev \<and> (case r of Inl e \<Rightarrow> X e | Inr v \<Rightarrow> True)"
  proof (cases r0)
    case (Inl e)
    with run m0 d show ?thesis by (auto simp: bind_def)
  next
    case (Inr a)
    obtain r2 ev2 w2 where f2: "f a w0 = (r2, ev2, w2)" by (cases "f a w0") auto
    note d2 = holdsD[OF f d(1) f2]
    from run m0 Inr f2 have "r = r2" "ev = ev0 @ ev2" "w1 = w2" by (auto simp: bind_def)
    with d d2 show ?thesis by (auto split: sum.splits)
  qed
qed

lemma holds_next_do:
  "holds I X E m \<Longrightarrow> holds I X E k \<Longrightarrow> holds I X E (next_do m k)"
  unfolding next_do_def by (rule holds_bind)

lemma holds_try_except:
  assumes m: "holds I X0 E m" and h: "\<And>e. X0 e \<Longrightarrow> holds I X E (h e)"
  shows "holds I X E (try_except m h)"
proof (rule holdsI)
  fix w r ev w1 assume I: "I w" and run: "try_except m h w = (r, ev, w1)"
  obtain r0 ev0 w0 where m0: "m w = (r0, ev0, w0)" by (cases "m w") auto
  note d = holdsD[OF m I m0]
  show "I w1 \<and> list_all E ev \<and> (case r of Inl e \<Rightarrow> X e | Inr v \<Rightarrow> True)"
  proof (cases r0)
    case (Inr a)
    with run m0 d show ?thesis by (auto simp: try_except_def)
  next
    case (Inl e)
    obtain r2 ev2 w2 where f2: "h e w0 = (r2, ev2, w2)" by (cases "h e w0") auto
    note d2 = holdsD[OF h[OF d(3)[OF Inl]] d(1) f2]
    from run m0 Inl f2 have "r = r2" "ev = ev0 @ ev2" "w1 = w2" by (auto simp: try_except_def)
    with d d2 show ?thesis by (auto split: sum.splits)
  qed
qed

lemma holds_try_except_Exception:
  assumes m: "holds I X0 E m" and h: "\<And>e. X0 e \<Longrightarrow> is_Exception e \<Longrightarrow> holds I X E (h e)"
    and p: "\<And>e. X0 e \<Longrightarrow> \<not> is_Exception e \<Longrightarrow> X e"
  shows "holds I X E (try_except_Exception m h)"
  unfolding try_except_Exception_def
  by (rule holds_try_except[OF m]) (auto intro: h holds_raise p)

lemma holds_pass_Exception:
  assumes m: "holds I X0 E m" and p: "\<And>e. X0 e \<Longrightarrow> \<not> is_Exception e \<Longrightarrow> X e"
  shows "holds I X E (pass_Exception m)"
  unfolding pass_Exception_def
  by (rule holds_try_except_Exception[OF m]) (auto intro: holds_ret p)



lemma holds_weaken:
  assumes "holds I X0 E m" "\<And>e. X0 e \<Longrightarrow> X e"
  shows "holds I X E m"
  using assms unfolding holds_def by (auto split: sum.splits)




lemma holds_execute_script:
  "X WebDriverException \<Longrightarrow> E (ExecuteScript s) \<Longrightarrow> holds I X E (execute_script b s)"
  by (auto simp: holds_def execute_script_def)















lemma holds_heartbeat_api_aux:
  "holds I X E (next_do (pass_Exception (execute_script b Void0)) (sleep 30000)) \<Longrightarrow>
   I w \<Longrightarrow> heartbeat_api b expiry w = (r, ev, w1) \<Longrightarrow>
   I w1 \<and> list_all E ev \<and> (case r of Inl e \<Rightarrow> X e | Inr v \<Rightarrow> True)"
proof (induction b expiry w arbitrary: r ev w1 rule: heartbeat_api.induct)
  case (1 b expiry w)
  note S = "1.prems"(1) and Iw = "1.prems"(2) and run = "1.prems"(3)
  let ?step = "next_do (pass_Exception (execute_script b Void0)) (sleep 30000)"
  obtain r2 e2 w2 where st: "?step w = (r2, e2, w2)" by (cases "?step w") auto
  note d = holdsD[OF S Iw st]
  show ?case
  proof (cases "now w < expiry")
    case False
    with run Iw show ?thesis
      by (subst (asm) heartbeat_api.simps) auto
  next
    case True
    show ?thesis
    proof (cases r2)
      case (Inl e)
      with True run st have "r = Inl e" "ev = e2" "w1 = w2"
        by (subst (asm) heartbeat_api.simps; simp)+
      with d Inl show ?thesis by simp
    next
      case (Inr u)
      obtain r3 e3 w3 where rec: "heartbeat_api b expiry w2 = (r3, e3, w3)"
        by (cases "heartbeat_api b expiry w2") auto
      with True Inr run st have "r = r3" "ev = e2 @ e3" "w1 = w3"
        by (subst (asm) heartbeat_api.simps; simp)+
      with "1.IH"[OF True st[symmetric] Inr refl S d(1) rec] d show ?thesis by simp
    qed
  qed
qed

lemma holds_if:
  "(c \<Longrightarrow> holds I X E m) \<Longrightarrow> (\<not> c \<Longrightarrow> holds I X E k) \<Longrightarrow> holds I X E (if c then m else k)"
  by simp







subsection \<open>The dashboard script neither exchanges nor stores a token\<close>












subsection \<open>A successful OAuth attempt has stored its token or seen the dashboard\<close>












text \<open>When saving raises after a successful exchange, the attempt's value at that point
  is \<open>False\<close>.\<close>

lemma store_failure_is_False:
  assumes "save_encrypted_token env user_id tok w = (Inl e, ev, w1)" "is_Exception e"
  shows "fst (store_token_api env b user_id tok w) = Inr False"
  using assms
  by (simp add: store_token_api_def bind_def try_except_Exception_def try_except_def
        next_do_run emit_def ret_def)


subsection \<open>Without a cancellation signal the heartbeat returns\<close>






subsection \<open>Success is reported only with a stored token\<close>







subsection \<open>The heartbeat under a cancellation signal\<close>

text \<open>The heartbeat of the OAuth script raises nothing but the cancellation signal, and
  the handler around it catches that: keeping the browser open never raises.\<close>

lemma heartbeat_api_raises_only_interrupt:
  "holds (\<lambda>w. True) (\<lambda>e. e = KeyboardInterrupt) (\<lambda>e. True) (heartbeat_api b expiry)"
proof (rule holdsI)
  fix w r ev w1
  assume run: "heartbeat_api b expiry w = (r, ev, w1)"
  have script: "holds (\<lambda>w. True) (\<lambda>e. e = WebDriverException) (\<lambda>e. True)
      (execute_script b Void0)"
    by (rule holds_execute_script) simp_all
  have nap: "holds (\<lambda>w. True) (\<lambda>e. e = KeyboardInterrupt) (\<lambda>e. True) (sleep 30000)"
    by (auto simp: holds_def sleep_def split: option.splits)
  have step: "holds (\<lambda>w. True) (\<lambda>e. e = KeyboardInterrupt) (\<lambda>e. True)
      (next_do (pass_Exception (execute_script b Void0)) (sleep 30000))"
    by (intro holds_next_do holds_pass_Exception[OF script] nap)
       (simp add: is_Exception_def)
  from holds_heartbeat_api_aux[OF step _ run]
  show "True \<and> list_all (\<lambda>e. True) ev
          \<and> (case r of Inl e \<Rightarrow> e = KeyboardInterrupt | Inr v \<Rightarrow> True)"
    by simp
qed

lemma keep_browser_open_never_raises: "fst (keep_browser_open env b w) = Inr ()"
proof -
  have "holds (\<lambda>w. True) (\<lambda>e. False) (\<lambda>e. True) (keep_browser_open env b)"
    unfolding keep_browser_open_def
    by (intro holds_if holds_bind holds_next_do holds_get_time holds_emit holds_ret
          holds_try_except[OF heartbeat_api_raises_only_interrupt])
       (simp_all add: holds_emit)
  then have "case fst (keep_browser_open env b w) of Inl e \<Rightarrow> False | Inr v \<Rightarrow> True"
    by (simp add: holds_def)
  then show ?thesis
    by (cases "fst (keep_browser_open env b w)") auto
qed

text \<open>The operator presses Ctrl-C five seconds into scenario A, that is during the first
  sleep of the heartbeat.\<close>

lemma interrupted_kite_steps:
  "submit_credentials_kite scenario_a (Some ''U1'') (Some ''pw1'') interrupted =
     (Inr (), [Get ''https://kite.zerodha.com/'', Clear 1, SendKeys 1 ''U1'',
               Clear 2, SendKeys 2 ''pw1'', Click 3, Log INFO ''Submitted credentials''],
      interrupted\<lparr>now := 1000\<rparr>)"
  "find_otp_fields_kite scenario_a 15000 (interrupted\<lparr>now := 1000\<rparr>)
     = (Inr [4], [], interrupted\<lparr>now := 1000\<rparr>)"
  "enter_otp_into_fields scenario_a ''123456'' [4] (interrupted\<lparr>now := 1000\<rparr>)
     = (Inr True, [Click 4, Clear 4, SendKeys 4 ''123456''], interrupted\<lparr>now := 1000\<rparr>)"
  "click_continue_button scenario_a 10000 (interrupted\<lparr>now := 1000\<rparr>)
     = (Inr True, [Click 5], interrupted\<lparr>now := 1000\<rparr>)"
  "wait_for_request_token_kite toy_qs scenario_a 30000 (interrupted\<lparr>now := 1000\<rparr>)
     = (Inr (Some ''abc123'', Some ''success'',
             ''http://localhost:8000/callback?request_token=abc123&status=success''), [],
        interrupted\<lparr>now := 1000\<rparr>)"
  "keep_dashboard_open scenario_a (interrupted\<lparr>now := 1000\<rparr>)
     = (Inl KeyboardInterrupt,
        [Log INFO ''Keeping dashboard open for 24 hours...'',
         ExecuteScript (ScrollBy 1), ExecuteScript (ScrollBy (- 1))],
        interrupted\<lparr>now := 5000, interrupt_at := None\<rparr>)"
  subgoal
    by (simp add: submit_credentials_kite_def run_defs WebDriverWait_until_def wait_until.simps
          presence_of_element_located_def browser_defs selector_defs scenario_defs sleep_def
          send_keys_opt_def interrupted_def)
  subgoal
    by (simp add: find_otp_fields_kite_def poll_otp_fields_kite.simps probe_otp_kite_def
          except_pass_def browser_defs selector_defs scenario_defs interrupted_def)
  subgoal
    by (simp add: enter_otp_into_fields_def run_defs browser_defs scenario_defs
          interrupted_def)
  subgoal
    by (simp add: trigger_defs run_defs browser_defs selector_defs scenario_defs
          interrupted_def)
  subgoal
    by (simp add: wait_for_request_token_kite_def poll_request_token.simps scenario_defs
          interrupted_def)
  subgoal
    by (simp add: keep_dashboard_open_def heartbeat_kite.simps run_defs browser_defs
          scenario_defs sleep_def interrupted_def)
  done

lemma interrupted_kite_attempt:
  "perform_login_for_account env0 kite_acct interrupted =
     (Inl KeyboardInterrupt,
      [Log INFO ''Starting login for U1'', Get ''https://kite.zerodha.com/'',
       Clear 1, SendKeys 1 ''U1'', Clear 2, SendKeys 2 ''pw1'', Click 3,
       Log INFO ''Submitted credentials'', Log INFO ''Generated OTP: 123456'',
       Click 4, Clear 4, SendKeys 4 ''123456'', Click 5,
       Log INFO ''Login successful - dashboard loaded!'',
       Log INFO ''Keeping dashboard open for 24 hours...'',
       ExecuteScript (ScrollBy 1), ExecuteScript (ScrollBy (- 1))],
      interrupted\<lparr>now := 5000, interrupt_at := None\<rparr>)"
proof -
  have env: "build_driver env0 (now interrupted) = Inr scenario_a" "qs env0 = toy_qs"
    "totp_now env0 ''JBSWY3DPEHPK3PXP'' 1000 = Inr ''123456''"
    by (simp_all add: env0_def)
  have n: "now (interrupted\<lparr>now := 1000\<rparr>) = 1000" by simp
  show ?thesis
    unfolding perform_login_for_account_def after_locate_kite_def kite_acct_def
    by (simp add: next_do_run bind_def at_now_def emit_def ret_def raise_def
          try_except_Exception_def try_except_def totp_now_opt_def env interrupted_kite_steps n
          is_Exception_def pystr_def
          del: world.simps)
qed

lemma interrupted_api_steps:
  "submit_credentials_api env0 scenario_a ''U1'' ''pw1'' interrupted =
     (Inr (), [Get ''https://kite.zerodha.com/connect/login'', Clear 1, SendKeys 1 ''U1'',
               Clear 2, SendKeys 2 ''pw1'', Click 3, Log INFO ''Submitted credentials''],
      interrupted\<lparr>now := 1000\<rparr>)"
  "find_otp_fields_api scenario_a 18000 (interrupted\<lparr>now := 1000\<rparr>)
     = (Inr [4], [], interrupted\<lparr>now := 1000\<rparr>)"
  "enter_otp_api scenario_a ''123456'' [4] (interrupted\<lparr>now := 1000\<rparr>)
     = (Inr True, [ExecuteScript (FocusSetValue 4 ''123456''), Clear 4, Click 4,
                   SendKeys 4 ''123456''], interrupted\<lparr>now := 1000\<rparr>)"
  "click_continue_api scenario_a (interrupted\<lparr>now := 1000\<rparr>)
     = (Inr True, [Click 5], interrupted\<lparr>now := 1000\<rparr>)"
  "wait_for_request_token_api toy_qs scenario_a 30000 (interrupted\<lparr>now := 1000\<rparr>)
     = (Inr (Some ''abc123'', Some ''success'',
             ''http://localhost:8000/callback?request_token=abc123&status=success''), [],
        interrupted\<lparr>now := 1000\<rparr>)"
  "exchange_token_api (env0\<lparr>keep_browser_minutes := 1\<rparr>) scenario_a ''U1'' ''abc123''
       (interrupted\<lparr>now := 1000\<rparr>)
     = (Inr True,
        [Exchange ''abc123'' (Some ''tok_xyz''),
         WriteFile ''tokens/U1_access_token.enc'' ''zyx_kot'',
         Log INFO ''Access token saved (encrypted) for U1'',
         Log INFO ''Keeping browser open'', ExecuteScript Void0,
         Log INFO ''Interrupted while keeping browser open''],
        interrupted\<lparr>now := 5000, interrupt_at := None,
                      files := [(''tokens/U1_access_token.enc'', ''zyx_kot'')]\<rparr>)"
  subgoal
    by (simp add: submit_credentials_api_def run_defs WebDriverWait_until_def wait_until.simps
          presence_of_element_located_def browser_defs selector_defs scenario_defs sleep_def
          interrupted_def)
  subgoal
    by (simp add: find_otp_fields_api_def poll_otp_fields_api.simps probe_otp_api_def
          probe_id_api_def except_pass_def browser_defs selector_defs scenario_defs
          interrupted_def)
  subgoal
    by (simp add: enter_otp_api_def run_defs browser_defs scenario_defs is_Exception_def
          interrupted_def)
  subgoal
    by (simp add: trigger_defs run_defs browser_defs selector_defs scenario_defs
          normalize_space_def is_ws_def is_Exception_def interrupted_def)
  subgoal
    by (simp add: wait_for_request_token_api_def poll_request_token.simps scenario_defs
          interrupted_def)
  subgoal
    by (simp add: exchange_token_api_def store_token_api_def generate_session_call_def
        save_encrypted_token_def get_fernet_def write_bytes_def chmod_def token_path_def
        send_email_def keep_browser_open_def heartbeat_api.simps sleep_def truthy_def run_defs
        browser_defs scenario_defs is_Exception_def interrupted_def)
  done

lemma interrupted_api_attempt:
  "fst (perform_oauth_login (env0\<lparr>keep_browser_minutes := 1\<rparr>) api_acct interrupted)
     = Inr True"
proof -
  have env: "build_driver env0 (now interrupted) = Inr scenario_a" "qs env0 = toy_qs"
    "totp_now env0 ''JBSWY3DPEHPK3PXP'' 1000 = Inr ''123456''"
    "login_url env0 = ''https://kite.zerodha.com/connect/login''"
    by (simp_all add: env0_def)
  have s1: "submit_credentials_api (env0\<lparr>keep_browser_minutes := 1\<rparr>) scenario_a ''U1'' ''pw1''
              interrupted = submit_credentials_api env0 scenario_a ''U1'' ''pw1'' interrupted"
    by (simp add: submit_credentials_api_def env0_def)
  have n: "now (interrupted\<lparr>now := 1000\<rparr>) = 1000" by simp
  have q: "quit_ok scenario_a 5000" by (simp add: scenario_defs)
  show ?thesis
    unfolding perform_oauth_login_def after_locate_api_def after_redirect_api_def api_acct_def
    by (simp add: next_do_run bind_def at_now_def get_time_def emit_def ret_def
          try_except_Exception_def try_except_def try_finally_def pass_Exception_def quit_def
          truthy_def env s1 interrupted_api_steps n q
          del: world.simps)
qed

text \<open>
  C9 (code defect). The heartbeat of the OAuth script behaves as claimed: keeping the browser open
  never raises, and an attempt interrupted during it still returns \<open>True\<close>. The heartbeat
  of the dashboard script does not: its only handler is around the two scroll scripts,
  so the cancellation signal delivered during the thirty-second sleep leaves the loop as
  an exception, which neither the attempt nor the batch catches; the attempt returns no
  value at all.
\<close>

theorem dashboard_heartbeat_interrupt_escapes:
  "fst (keep_dashboard_open scenario_a (interrupted\<lparr>now := 1000\<rparr>)) = Inl KeyboardInterrupt
   \<and> fst (perform_login_for_account env0 kite_acct interrupted) = Inl KeyboardInterrupt
   \<and> fst (keep_browser_open (env0\<lparr>keep_browser_minutes := 1\<rparr>) scenario_a
            (interrupted\<lparr>now := 1000\<rparr>)) = Inr ()
   \<and> fst (perform_oauth_login (env0\<lparr>keep_browser_minutes := 1\<rparr>) api_acct interrupted)
       = Inr True"
  by (simp add: interrupted_kite_steps(6) interrupted_kite_attempt
        keep_browser_open_never_raises interrupted_api_attempt)

subsection \<open>The batch when no browser can be started\<close>

text \<open>The loop of the OAuth script over the accounts raises nothing but the cancellation
  signal (from the pause between two accounts).\<close>

lemma main_loop_api_raises_only_interrupt:
  "holds (\<lambda>w. True) (\<lambda>e. e = KeyboardInterrupt) (\<lambda>e. True) (main_loop_api env accounts)"
proof (induction accounts)
  case Nil
  show ?case by (simp add: holds_ret)
next
  case (Cons acct rest)
  have nap: "holds (\<lambda>w. True) (\<lambda>e. e = KeyboardInterrupt) (\<lambda>e. True) (sleep 4000)"
    by (auto simp: holds_def sleep_def split: option.splits)
  have body: "holds (\<lambda>w. True) (\<lambda>e. True) (\<lambda>e. True)
      (bind (perform_oauth_login env acct) (\<lambda>ok.
         next_do (emit (Log INFO (''Result for '' @ fst acct @ '': ''
                               @ (if ok then ''True'' else ''False''))))
                      (ret True)))"
    by (simp add: holds_def list_all_iff split: sum.splits)
  show ?case
    unfolding main_loop_api.simps
    by (intro holds_bind holds_try_except[OF body] holds_if holds_next_do holds_emit holds_ret
          nap Cons.IH) simp_all
qed

text \<open>Every attempt of the OAuth script begins by logging the account it is for.\<close>

lemma perform_oauth_login_announces:
  "\<exists>ev. fst (snd (perform_oauth_login env acct w))
          = Log INFO (''=== Login start: '' @ fst acct @ '' ==='') # ev"
proof -
  obtain user_id password totp_secret where a: "acct = (user_id, password, totp_secret)"
    by (cases acct) auto
  show ?thesis
    unfolding perform_oauth_login_def a
    by (simp add: next_do_run emit_def split: prod.splits sum.splits)
qed

text \<open>One turn of the OAuth script's loop: the account is announced, and the loop is left
  only after logging the interruption.\<close>

lemma main_loop_api_turn:
  assumes "try_except
             (bind (perform_oauth_login env acct) (\<lambda>ok.
              next_do (emit (Log INFO (''Result for '' @ fst acct @ '': ''
                               @ (if ok then ''True'' else ''False''))))
                      (ret True)))
             (\<lambda>e. if e = KeyboardInterrupt
                  then next_do (emit (Log INFO ''Interrupted by user'')) (ret False)
                  else next_do (emit (Log ERROR
                                  (''Unhandled error in main loop for '' @ fst acct)))
                               (ret True)) w = (Inr go_on, ev1, w1)"
  shows "Log INFO (''=== Login start: '' @ fst acct @ '' ==='') \<in> set ev1"
    and "\<not> go_on \<Longrightarrow> Log INFO ''Interrupted by user'' \<in> set ev1"
proof -
  obtain rp evp wp where p: "perform_oauth_login env acct w = (rp, evp, wp)"
    by (cases "perform_oauth_login env acct w") auto
  from perform_oauth_login_announces[of env acct w] p obtain ev where
    evp: "evp = Log INFO (''=== Login start: '' @ fst acct @ '' ==='') # ev" by auto
  from assms p evp show "Log INFO (''=== Login start: '' @ fst acct @ '' ==='') \<in> set ev1"
    by (cases rp) (auto simp: try_except_def bind_def next_do_def emit_def ret_def
                     split: if_splits)
  from assms p evp show "\<not> go_on \<Longrightarrow> Log INFO ''Interrupted by user'' \<in> set ev1"
    by (cases rp) (auto simp: try_except_def bind_def next_do_def emit_def ret_def
                     split: if_splits)
qed

text \<open>A pass of the OAuth script's loop that returns without having logged an
  interruption has announced, hence attempted, every account.\<close>

lemma main_loop_api_attempts_all:
  "main_loop_api env accounts w = (Inr (), evs, w') \<Longrightarrow>
   Log INFO ''Interrupted by user'' \<notin> set evs \<Longrightarrow> acct \<in> set accounts \<Longrightarrow>
   Log INFO (''=== Login start: '' @ fst acct @ '' ==='') \<in> set evs"
proof (induction accounts arbitrary: w evs)
  case Nil
  then show ?case by simp
next
  case (Cons a rest)
  from bind_Inr[OF Cons.prems(1)[unfolded main_loop_api.simps]]
  obtain go_on ev1 w1 ev2 where
    turn: "try_except
             (bind (perform_oauth_login env a) (\<lambda>ok.
              next_do (emit (Log INFO (''Result for '' @ fst a @ '': ''
                               @ (if ok then ''True'' else ''False''))))
                      (ret True)))
             (\<lambda>e. if e = KeyboardInterrupt
                  then next_do (emit (Log INFO ''Interrupted by user'')) (ret False)
                  else next_do (emit (Log ERROR
                                  (''Unhandled error in main loop for '' @ fst a)))
                               (ret True)) w = (Inr go_on, ev1, w1)"
    and tail: "(if go_on then next_do (sleep 4000) (main_loop_api env rest) else ret ()) w1
                 = (Inr (), ev2, w')"
    and evs: "evs = ev1 @ ev2"
    by blast
  note t = main_loop_api_turn[OF turn]
  from t(2) Cons.prems(2) evs have go: go_on by auto
  from tail go have "next_do (sleep 4000) (main_loop_api env rest) w1 = (Inr (), ev2, w')"
    by simp
  from next_do_Inr[OF this] obtain u ev3 w2 ev4 where
    rest: "main_loop_api env rest w2 = (Inr (), ev4, w')" and ev2: "ev2 = ev3 @ ev4"
    by blast
  show ?case
  proof (cases "acct = a")
    case True
    with t(1) evs show ?thesis by simp
  next
    case False
    with Cons.prems(3) have "acct \<in> set rest" by simp
    moreover from Cons.prems(2) evs ev2 have "Log INFO ''Interrupted by user'' \<notin> set ev4"
      by simp
    ultimately have "Log INFO (''=== Login start: '' @ fst acct @ '' ==='') \<in> set ev4"
      using Cons.IH[OF rest] by blast
    with evs ev2 show ?thesis by simp
  qed
qed

text \<open>
  C7 (code defect). The batch runner of the OAuth script behaves as claimed. The one of the dashboard
  script has no handler around the attempt, and the attempt starts the browser before
  its own \<^verbatim>\<open>try\<close>: on a machine where no browser can be started, the exception of the
  first account ends the batch, and the second account is never attempted. The OAuth
  script, on the same machine, logs the failure of both accounts and completes.
\<close>

theorem batch_kite_stops_at_first_failure:
  "fst (main_kite env_nodriver world0) = Inl WebDriverException
   \<and> fst (snd (main_kite env_nodriver world0))
       = [Log INFO ''Loaded accounts'', Log INFO ''Starting login for U1'']
   \<and> fst (main_api env_nodriver world0) = Inr ()
   \<and> fst (snd (main_api env_nodriver world0))
       = [Log INFO ''Loaded accounts'', Log INFO ''=== Login start: U1 ==='',
          Log INFO ''Login URL: https://kite.zerodha.com/connect/login'',
          Log ERROR ''WebDriver exception for U1'',
          Log INFO ''Result for U1: False'', Log INFO ''=== Login start: U2 ==='',
          Log INFO ''Login URL: https://kite.zerodha.com/connect/login'',
          Log ERROR ''WebDriver exception for U2'',
          Log INFO ''Result for U2: False'']"
proof -
  have k: "main_kite env_nodriver world0
      = (Inl WebDriverException,
         [Log INFO ''Loaded accounts'', Log INFO ''Starting login for U1''], world0)"
    by (simp add: main_kite_def read_accounts_kite_def env_nodriver_def two_accounts_def
          DictReader_def dict_row_def dict_index_def perform_login_for_account_def
          pystr_def truthy_def run_defs scenario_defs)
  have a: "main_api env_nodriver world0
      = (Inr (),
         [Log INFO ''Loaded accounts'', Log INFO ''=== Login start: U1 ==='',
          Log INFO ''Login URL: https://kite.zerodha.com/connect/login'',
          Log ERROR ''WebDriver exception for U1'',
          Log INFO ''Result for U1: False'', Log INFO ''=== Login start: U2 ==='',
          Log INFO ''Login URL: https://kite.zerodha.com/connect/login'',
          Log ERROR ''WebDriver exception for U2'',
          Log INFO ''Result for U2: False''], world0\<lparr>now := 8000\<rparr>)"
    by (simp add: main_api_def read_accounts_api_def env_nodriver_def two_accounts_def
          DictReader_def dict_row_def dict_get_def py_or_def strip_def is_space_def
          perform_oauth_login_def is_Exception_def is_WebDriverException_def
          truthy_def sleep_def run_defs scenario_defs)
  show ?thesis by (simp add: k a)
qed

theorem batch_kite_stops_at_first_failure_witness:
  "fst (main_kite env_nodriver world0) \<noteq> Inr ()
   \<and> Log INFO ''Starting login for U2'' \<notin> set (fst (snd (main_kite env_nodriver world0)))
   \<and> Log INFO ''=== Login start: U2 ==='' \<in> set (fst (snd (main_api env_nodriver world0)))"
  using batch_kite_stops_at_first_failure by simp

end
